theory Spec2Isabelle
  imports Main "HOL-Library.AList"
begin

section \<open>JavaScript values carried by a message\<close>

text \<open>
  \<^verbatim>\<open>src/server.js\<close> receives a text frame, runs \<^verbatim>\<open>JSON.parse\<close> on it and reads
  the properties \<^verbatim>\<open>type\<close>, \<^verbatim>\<open>code\<close>, \<^verbatim>\<open>name\<close>, \<^verbatim>\<open>size\<close> and \<^verbatim>\<open>chunk\<close> of the result.
  A property value is modelled as a primitive JavaScript value: \<open>JUndefined\<close> for a
  property that is absent, \<open>JNull\<close>, a boolean, a number or a string.

  \<^item> \<open>JNum n\<close> is the integer-valued Number \<open>n\<close>. Below \<open>10^21\<close> in magnitude
    \<^verbatim>\<open>Number.prototype.toString\<close> prints such a number in plain decimal digits; from
    \<open>10^21\<close> on it prints the exponent form (\<^verbatim>\<open>String(1e21)\<close> is \<^verbatim>\<open>"1e+21"\<close>), which the model
    does not print. Numbers with a fraction or of magnitude \<open>10^21\<close> and more are outside
    the model: \<open>plain_number\<close> below says that a value is inside, and every property that
    reads a number as a size assumes it.
  \<^item> A string is a list of code units; a \<^typ>\<open>char\<close> stands for one code unit below 256.
  \<^item> Arrays and objects as property values are outside the model (their \<^verbatim>\<open>Map\<close> key
    identity is by reference and their string conversion is user-definable).
\<close>

datatype jsval = JUndefined | JNull | JBool bool | JNum int | JStr string

definition digit_char :: "nat \<Rightarrow> char" where
  "digit_char d = char_of (48 + d)"

fun digits10 :: "nat \<Rightarrow> string" where
  "digits10 n = (if n < 10 then [digit_char n] else digits10 (n div 10) @ [digit_char (n mod 10)])"

declare digits10.simps [simp del]

text \<open>
  \<^verbatim>\<open>ToString\<close> of ECMAScript, on the values of the model. For a number the plain digits
  are what the program prints up to \<open>2^53\<close>; between \<open>2^53\<close> and \<open>10^21\<close> the program prints
  plain digits that read back as the same Number.
\<close>

fun ToString :: "jsval \<Rightarrow> string" where
  "ToString JUndefined = ''undefined''"
| "ToString JNull = ''null''"
| "ToString (JBool b) = (if b then ''true'' else ''false'')"
| "ToString (JNum n) = (if n < 0 then CHR ''-'' # digits10 (nat (- n)) else digits10 (nat n))"
| "ToString (JStr s) = s"

text \<open>
  The values on which \<^const>\<open>ToString\<close> is the conversion of the program: every value but a
  number of magnitude \<open>10^21\<close> or more.
\<close>

definition plain_number :: "jsval \<Rightarrow> bool" where
  "plain_number v = (case v of JNum n \<Rightarrow> \<bar>n\<bar> < 10 ^ 21 | _ \<Rightarrow> True)"

subsection \<open>The room code pattern\<close>

text \<open>
  \<^verbatim>\<open>/^\d{4}$/.test(code)\<close>: the argument is converted with \<^verbatim>\<open>ToString\<close>; without the
  \<^verbatim>\<open>m\<close> and \<^verbatim>\<open>u\<close> flags \<^verbatim>\<open>\d\<close> is \<^verbatim>\<open>[0-9]\<close> and \<^verbatim>\<open>^\<close>, \<^verbatim>\<open>$\<close> are the two ends of the input.
\<close>

definition is_digit :: "char \<Rightarrow> bool" where
  "is_digit c = (48 \<le> (of_char c :: nat) \<and> (of_char c :: nat) \<le> 57)"

definition four_digits :: "string \<Rightarrow> bool" where
  "four_digits s = (length s = 4 \<and> list_all is_digit s)"

definition code_test :: "jsval \<Rightarrow> bool" where
  "code_test code = four_digits (ToString code)"

subsection \<open>parseInt\<close>

text \<open>
  \<^verbatim>\<open>parseInt(v)\<close> with no radix, after ECMAScript: convert with \<^verbatim>\<open>ToString\<close>, skip leading
  white space, read a sign, read a \<^verbatim>\<open>0x\<close>/\<^verbatim>\<open>0X\<close> prefix (radix 16, else 10), take the longest
  run of digits of the radix; no digit gives \<^verbatim>\<open>NaN\<close>, here \<open>None\<close>. The result
  \<open>Some i\<close> is the mathematical integer read; the Number the program holds is the double
  nearest to it, which compares with \<open>200 * 1024 * 1024\<close> as \<open>i\<close> does and equals \<open>i\<close>
  up to \<open>2^53\<close>.
\<close>

definition is_white :: "char \<Rightarrow> bool" where
  "is_white c = ((of_char c :: nat) \<in> {9, 10, 11, 12, 13, 32, 160})"

definition digit_val :: "nat \<Rightarrow> char \<Rightarrow> nat option" where
  "digit_val radix c =
     (let u = (of_char c :: nat);
          d = (if 48 \<le> u \<and> u \<le> 57 then Some (u - 48)
               else if 97 \<le> u \<and> u \<le> 102 then Some (u - 87)
               else if 65 \<le> u \<and> u \<le> 70 then Some (u - 55)
               else None)
      in case d of None \<Rightarrow> None | Some v \<Rightarrow> if v < radix then Some v else None)"

fun take_digits :: "nat \<Rightarrow> string \<Rightarrow> nat list" where
  "take_digits radix [] = []"
| "take_digits radix (c # cs) =
     (case digit_val radix c of None \<Rightarrow> [] | Some d \<Rightarrow> d # take_digits radix cs)"

definition digits_value :: "nat \<Rightarrow> nat list \<Rightarrow> nat" where
  "digits_value radix ds = foldl (\<lambda>a d. a * radix + d) 0 ds"

definition strip_sign :: "string \<Rightarrow> int \<times> string" where
  "strip_sign s =
     (case s of
        [] \<Rightarrow> (1, [])
      | c # cs \<Rightarrow> if c = CHR ''-'' then (- 1, cs) else if c = CHR ''+'' then (1, cs) else (1, s))"

definition strip_prefix :: "string \<Rightarrow> nat \<times> string" where
  "strip_prefix s =
     (case s of
        a # b # cs \<Rightarrow> if a = CHR ''0'' \<and> (b = CHR ''x'' \<or> b = CHR ''X'') then (16, cs) else (10, s)
      | _ \<Rightarrow> (10, s))"

definition parseInt_string :: "string \<Rightarrow> int option" where
  "parseInt_string input =
     (let (sign, s1) = strip_sign (dropWhile is_white input);
          (radix, s2) = strip_prefix s1;
          z = take_digits radix s2
      in if z = [] then None else Some (sign * int (digits_value radix z)))"

definition parseInt :: "jsval \<Rightarrow> int option" where
  "parseInt v = parseInt_string (ToString v)"

section \<open>Rooms, messages and the server state\<close>

type_synonym conn = nat

type_synonym time = nat

record metadata =
  md_name :: string
  md_size :: "int option"
  md_type :: jsval

record room =
  sender :: conn
  receiver :: "conn option"
  metadata :: "metadata option"
  createdAt :: time
  lastActivity :: time

text \<open>
  \<^verbatim>\<open>this.rooms\<close> is a \<^verbatim>\<open>Map\<close>: the entries in insertion order, one per key. \<^verbatim>\<open>get\<close> is
  \<^const>\<open>map_of\<close>, \<^verbatim>\<open>set\<close> is \<^const>\<open>AList.update\<close> (a present key keeps its place, a new
  one goes last), \<^verbatim>\<open>delete\<close> is \<^const>\<open>AList.delete\<close>. Each room object is held by one
  entry only, so the entry holds the object itself.
\<close>

type_synonym registry = "(jsval \<times> room) list"

text \<open>
  What \<^verbatim>\<open>ws.send(JSON.stringify(...))\<close> is given, before it is printed; \<^verbatim>\<open>send\<close> belongs to
  the transport and is taken to succeed. \<open>MetadataFwd md\<close> is the object
  \<^verbatim>\<open>{type: 'metadata', ...room.metadata}\<close>: the spread writes the three fields of the stored
  metadata, its \<^verbatim>\<open>type\<close> over the literal one.
\<close>

datatype reply =
    Error string
  | Registered jsval
  | PeerConnected
  | Connected jsval
  | MetadataFwd metadata
  | Chunk jsval
  | Complete

record server =
  rooms :: registry
  outbox :: "(conn \<times> reply) list"

definition init :: server where
  "init = \<lparr>rooms = [], outbox = []\<rparr>"

definition send :: "server \<Rightarrow> conn \<Rightarrow> reply \<Rightarrow> server" where
  "send s ws r = s\<lparr>outbox := outbox s @ [(ws, r)]\<rparr>"

text \<open>The five properties the handlers read from a parsed object.\<close>

record message =
  msg_type :: jsval
  msg_code :: jsval
  msg_name :: jsval
  msg_size :: jsval
  msg_chunk :: jsval

text \<open>
  The value \<^verbatim>\<open>JSON.parse\<close> returned: \<^verbatim>\<open>null\<close>, an object, or anything else (a number, a
  string, a boolean, an array), on which every property read above is \<^verbatim>\<open>undefined\<close>.
\<close>

datatype parsed = TopNull | TopObject message | TopOther

datatype exn = TypeError

text \<open>A handler returns, or throws with the state as it is at the throw.\<close>

datatype outcome = Returned server | Thrown exn server

section \<open>The handlers of \<^verbatim>\<open>FileTransferServer\<close>\<close>

text \<open>
  \<^verbatim>\<open>Date.now()\<close> is an input: a handler is given the readings it takes
  (\<^verbatim>\<open>createRoom\<close> takes two, one for each timestamp).
\<close>

definition createRoom :: "server \<Rightarrow> conn \<Rightarrow> jsval \<Rightarrow> time \<Rightarrow> time \<Rightarrow> server" where
  "createRoom s ws code t1 t2 =
     (if \<not> code_test code then send s ws (Error ''Invalid room code format'')
      else if map_of (rooms s) code \<noteq> None then send s ws (Error ''Room already exists'')
      else send
             (s\<lparr>rooms := AList.update code
                   \<lparr>sender = ws, receiver = None, metadata = None,
                    createdAt = t1, lastActivity = t2\<rparr> (rooms s)\<rparr>)
             ws (Registered code))"

definition joinRoom :: "server \<Rightarrow> conn \<Rightarrow> jsval \<Rightarrow> time \<Rightarrow> server" where
  "joinRoom s ws code t =
     (if \<not> code_test code then send s ws (Error ''Invalid room code format'')
      else
        (case map_of (rooms s) code of
           None \<Rightarrow> send s ws (Error ''Room does not exist or has expired'')
         | Some room \<Rightarrow>
             if receiver room \<noteq> None then send s ws (Error ''Room is already occupied'')
             else
               let s1 = s\<lparr>rooms := AList.update code
                             (room\<lparr>receiver := Some ws, lastActivity := t\<rparr>) (rooms s)\<rparr>;
                   s2 = send s1 (sender room) PeerConnected
               in send s2 ws (Connected code)))"

text \<open>The test \<^verbatim>\<open>room.sender === ws || room.receiver === ws\<close> of the three scans.\<close>

definition occupies :: "room \<Rightarrow> conn \<Rightarrow> bool" where
  "occupies room ws = (sender room = ws \<or> receiver room = Some ws)"

fun findRoomByClient :: "registry \<Rightarrow> conn \<Rightarrow> room option" where
  "findRoomByClient [] ws = None"
| "findRoomByClient ((code, room) # rest) ws =
     (if occupies room ws then Some room else findRoomByClient rest ws)"

text \<open>\<^verbatim>\<open>getRoomCode\<close> returns \<^verbatim>\<open>null\<close> when the scan finds nothing.\<close>

fun getRoomCode :: "registry \<Rightarrow> conn \<Rightarrow> jsval" where
  "getRoomCode [] ws = JNull"
| "getRoomCode ((code, room) # rest) ws =
     (if occupies room ws then code else getRoomCode rest ws)"

text \<open>
  \<^verbatim>\<open>findRoomByClient\<close> returns the room object of the first matching entry, and the
  handlers assign to its fields. \<open>assignFound rs ws f\<close> is the registry after the
  assignments \<open>f\<close> to that object.
\<close>

fun assignFound :: "registry \<Rightarrow> conn \<Rightarrow> (room \<Rightarrow> room) \<Rightarrow> registry" where
  "assignFound [] ws f = []"
| "assignFound ((code, room) # rest) ws f =
     (if occupies room ws then (code, f room) # rest else (code, room) # assignFound rest ws f)"

definition size_limit :: int where
  "size_limit = 200 * 1024 * 1024"

text \<open>\<^verbatim>\<open>fileSize > 200 * 1024 * 1024\<close>; a comparison with \<^verbatim>\<open>NaN\<close> is false.\<close>

definition too_large :: "int option \<Rightarrow> bool" where
  "too_large fileSize = (case fileSize of None \<Rightarrow> False | Some n \<Rightarrow> n > size_limit)"

text \<open>
  \<^verbatim>\<open>message.name.slice(0, 256)\<close>: the first 256 code units of a string. On \<^verbatim>\<open>undefined\<close>
  and \<^verbatim>\<open>null\<close> the property read throws a \<^verbatim>\<open>TypeError\<close>, on a number or a boolean
  \<^verbatim>\<open>slice\<close> is \<^verbatim>\<open>undefined\<close> and the call throws one.
\<close>

fun name_slice :: "jsval \<Rightarrow> string option" where
  "name_slice (JStr s) = Some (take 256 s)"
| "name_slice v = None"

definition handleMetadata :: "server \<Rightarrow> conn \<Rightarrow> message \<Rightarrow> time \<Rightarrow> outcome" where
  "handleMetadata s ws message t =
     (case findRoomByClient (rooms s) ws of
        None \<Rightarrow> Returned s
      | Some room \<Rightarrow>
          let fileSize = parseInt (msg_size message) in
          if too_large fileSize then Returned (send s ws (Error ''File too large (max 500MB)''))
          else
            (case name_slice (msg_name message) of
               None \<Rightarrow> Thrown TypeError s
             | Some nm \<Rightarrow>
                 let md = \<lparr>md_name = nm, md_size = fileSize, md_type = msg_type message\<rparr>;
                     s1 = s\<lparr>rooms := assignFound (rooms s) ws
                                   (\<lambda>r. r\<lparr>metadata := Some md, lastActivity := t\<rparr>)\<rparr>
                 in (case receiver room of
                       None \<Rightarrow> Returned s1
                     | Some r \<Rightarrow> Returned (send s1 r (MetadataFwd md)))))"

definition forwardChunk :: "server \<Rightarrow> conn \<Rightarrow> message \<Rightarrow> time \<Rightarrow> server" where
  "forwardChunk s ws message t =
     (case findRoomByClient (rooms s) ws of
        None \<Rightarrow> s
      | Some room \<Rightarrow>
          (case receiver room of
             None \<Rightarrow> s
           | Some r \<Rightarrow>
               send (s\<lparr>rooms := assignFound (rooms s) ws (\<lambda>r. r\<lparr>lastActivity := t\<rparr>)\<rparr>)
                 r (Chunk (msg_chunk message))))"

definition handleTransferComplete :: "server \<Rightarrow> conn \<Rightarrow> message \<Rightarrow> server" where
  "handleTransferComplete s ws message =
     (case findRoomByClient (rooms s) ws of
        None \<Rightarrow> s
      | Some room \<Rightarrow>
          (case receiver room of
             None \<Rightarrow> s
           | Some r \<Rightarrow>
               let s1 = send s r Complete
               in s1\<lparr>rooms := AList.delete (getRoomCode (rooms s1) ws) (rooms s1)\<rparr>))"

text \<open>\<^verbatim>\<open>room.sender === ws ? room.receiver : room.sender\<close>.\<close>

definition otherClient :: "room \<Rightarrow> conn \<Rightarrow> conn option" where
  "otherClient room ws = (if sender room = ws then receiver room else Some (sender room))"

text \<open>The loop of \<^verbatim>\<open>cleanupRooms\<close> over the entries still to visit.\<close>

fun cleanupLoop :: "server \<Rightarrow> registry \<Rightarrow> conn \<Rightarrow> server" where
  "cleanupLoop s [] ws = s"
| "cleanupLoop s ((code, room) # rest) ws =
     (if occupies room ws then
        let s1 = (case otherClient room ws of
                    None \<Rightarrow> s
                  | Some c \<Rightarrow> send s c (Error ''Peer disconnected''))
        in s1\<lparr>rooms := AList.delete code (rooms s1)\<rparr>
      else cleanupLoop s rest ws)"

definition cleanupRooms :: "server \<Rightarrow> conn \<Rightarrow> server" where
  "cleanupRooms s ws = cleanupLoop s (rooms s) ws"

text \<open>
  \<^verbatim>\<open>handleMessage\<close>: reading \<^verbatim>\<open>message.type\<close> of \<^verbatim>\<open>null\<close> throws; the \<^verbatim>\<open>switch\<close> compares
  with \<^verbatim>\<open>===\<close>.
\<close>

definition handleMessage :: "server \<Rightarrow> conn \<Rightarrow> parsed \<Rightarrow> time \<Rightarrow> time \<Rightarrow> outcome" where
  "handleMessage s ws data t1 t2 =
     (case data of
        TopNull \<Rightarrow> Thrown TypeError s
      | TopOther \<Rightarrow> Returned (send s ws (Error ''Unknown message type''))
      | TopObject message \<Rightarrow>
          if msg_type message = JStr ''register'' then
            Returned (createRoom s ws (msg_code message) t1 t2)
          else if msg_type message = JStr ''join'' then
            Returned (joinRoom s ws (msg_code message) t1)
          else if msg_type message = JStr ''metadata'' then handleMetadata s ws message t1
          else if msg_type message = JStr ''chunk'' then Returned (forwardChunk s ws message t1)
          else if msg_type message = JStr ''complete'' then
            Returned (handleTransferComplete s ws message)
          else Returned (send s ws (Error ''Unknown message type'')))"

text \<open>
  The \<^verbatim>\<open>message\<close> listener of a connection: \<open>None\<close> is a frame on which \<^verbatim>\<open>JSON.parse\<close>
  throws. The \<^verbatim>\<open>try\<close> block holds the parse and the call of \<^verbatim>\<open>handleMessage\<close>, so the
  \<^verbatim>\<open>catch\<close> answers every exception of either.
\<close>

definition onMessage :: "server \<Rightarrow> conn \<Rightarrow> parsed option \<Rightarrow> time \<Rightarrow> time \<Rightarrow> server" where
  "onMessage s ws frame t1 t2 =
     (case frame of
        None \<Rightarrow> send s ws (Error ''Invalid message format'')
      | Some data \<Rightarrow>
          (case handleMessage s ws data t1 t2 of
             Returned s' \<Rightarrow> s'
           | Thrown e s' \<Rightarrow> send s' ws (Error ''Invalid message format'')))"

subsection \<open>Events and reachable states\<close>

datatype event = Message conn "parsed option" time time | Close conn

fun step :: "server \<Rightarrow> event \<Rightarrow> server" where
  "step s (Message ws frame t1 t2) = onMessage s ws frame t1 t2"
| "step s (Close ws) = cleanupRooms s ws"

definition run :: "event list \<Rightarrow> server" where
  "run evs = foldl step init evs"

inductive reachable :: "server \<Rightarrow> bool" where
  start: "reachable init"
| after: "reachable s \<Longrightarrow> reachable (step s e)"

section \<open>Notions used by the properties\<close>

fun state_of :: "outcome \<Rightarrow> server" where
  "state_of (Returned s) = s"
| "state_of (Thrown e s) = s"

text \<open>The messages a transition from \<open>s\<close> to \<open>s'\<close> sent.\<close>

definition sent :: "server \<Rightarrow> server \<Rightarrow> (conn \<times> reply) list" where
  "sent s s' = drop (length (outbox s)) (outbox s')"

text \<open>The keys of the registry are pairwise different and pass the code pattern.\<close>

definition keys_ok :: "registry \<Rightarrow> bool" where
  "keys_ok rs = (distinct (map fst rs) \<and> list_all code_test (map fst rs))"

text \<open>The number of roles (sender or receiver of a live room) a connection holds.\<close>

fun roles :: "registry \<Rightarrow> conn \<Rightarrow> nat" where
  "roles [] c = 0"
| "roles ((code, room) # rest) c =
     (if sender room = c then 1 else 0) + (if receiver room = Some c then 1 else 0) + roles rest c"

text \<open>
  Caller discipline: a \<^verbatim>\<open>register\<close> or \<^verbatim>\<open>join\<close> message comes from a connection that
  holds no role when it is handled.
\<close>

fun requests_role :: "event \<Rightarrow> conn option" where
  "requests_role (Message ws (Some (TopObject m)) t1 t2) =
     (if msg_type m = JStr ''register'' \<or> msg_type m = JStr ''join'' then Some ws else None)"
| "requests_role e = None"

definition disciplined :: "server \<Rightarrow> event \<Rightarrow> bool" where
  "disciplined s e = (case requests_role e of None \<Rightarrow> True | Some ws \<Rightarrow> roles (rooms s) ws = 0)"

fun disciplined_run :: "server \<Rightarrow> event list \<Rightarrow> bool" where
  "disciplined_run s [] = True"
| "disciplined_run s (e # es) = (disciplined s e \<and> disciplined_run (step s e) es)"

text \<open>
  The deletion the specification describes for \<^verbatim>\<open>complete\<close>: remove the room object that
  the scan for the connection resolved, with no second lookup of its code.
\<close>

fun deleteResolved :: "registry \<Rightarrow> conn \<Rightarrow> registry" where
  "deleteResolved [] ws = []"
| "deleteResolved ((code, room) # rest) ws =
     (if occupies room ws then rest else (code, room) # deleteResolved rest ws)"

text \<open>The strings that \<^const>\<open>digits10\<close> prints: decimal digits only.\<close>

definition plain_digits :: "string \<Rightarrow> bool" where
  "plain_digits s = list_all (\<lambda>c. \<exists>d < 10. c = digit_char d) s"

text \<open>
  \<^verbatim>\<open>complete\<close> as the specification would have it: one scan, then the resolved room is
  removed.
\<close>

definition completeSingleLookup :: "server \<Rightarrow> conn \<Rightarrow> server" where
  "completeSingleLookup s ws =
     (case findRoomByClient (rooms s) ws of
        None \<Rightarrow> s
      | Some room \<Rightarrow>
          (case receiver room of
             None \<Rightarrow> s
           | Some r \<Rightarrow> (send s r Complete)\<lparr>rooms := deleteResolved (rooms s) ws\<rparr>))"

subsection \<open>Sample traffic\<close>

text \<open>
  Concrete inputs for the instances below. \<open>request ty code\<close> is a parsed object with the
  given \<^verbatim>\<open>type\<close> and \<^verbatim>\<open>code\<close> and no other property, \<open>metadata_message nm sz\<close> one with
  \<^verbatim>\<open>type\<close> \<^verbatim>\<open>"metadata"\<close>, the given \<^verbatim>\<open>name\<close> and \<^verbatim>\<open>size\<close>. The traces:
  \<^item> \<open>registered_trace\<close>: connection 1 registers \<^verbatim>\<open>"1234"\<close>;
  \<^item> \<open>paired_trace\<close>: then connection 2 joins \<^verbatim>\<open>"1234"\<close>;
  \<^item> \<open>two_rooms_trace\<close>: connection 1 registers \<^verbatim>\<open>"1111"\<close> and \<^verbatim>\<open>"2222"\<close>, connection 2 joins
    \<^verbatim>\<open>"1111"\<close>;
  \<^item> \<open>late_join_trace\<close>: connection 2 registers \<^verbatim>\<open>"2222"\<close>, connection 1 registers
    \<^verbatim>\<open>"1111"\<close>, connection 2 joins \<^verbatim>\<open>"1111"\<close>.
\<close>

definition request :: "string \<Rightarrow> jsval \<Rightarrow> message" where
  "request ty code =
     \<lparr>msg_type = JStr ty, msg_code = code, msg_name = JUndefined, msg_size = JUndefined,
      msg_chunk = JUndefined\<rparr>"

definition registered_trace :: "event list" where
  "registered_trace = [Message 1 (Some (TopObject (request ''register'' (JStr ''1234'')))) 5 6]"

definition paired_trace :: "event list" where
  "paired_trace =
     registered_trace @ [Message 2 (Some (TopObject (request ''join'' (JStr ''1234'')))) 7 7]"

definition registered_room :: room where
  "registered_room =
     \<lparr>sender = 1, receiver = None, metadata = None, createdAt = 5, lastActivity = 6\<rparr>"

definition paired_room :: room where
  "paired_room =
     \<lparr>sender = 1, receiver = Some 2, metadata = None, createdAt = 5, lastActivity = 7\<rparr>"

definition two_rooms_trace :: "event list" where
  "two_rooms_trace =
     [Message 1 (Some (TopObject (request ''register'' (JStr ''1111'')))) 5 5,
      Message 1 (Some (TopObject (request ''register'' (JStr ''2222'')))) 6 6,
      Message 2 (Some (TopObject (request ''join'' (JStr ''1111'')))) 7 7]"

definition metadata_message :: "jsval \<Rightarrow> jsval \<Rightarrow> message" where
  "metadata_message nm sz =
     \<lparr>msg_type = JStr ''metadata'', msg_code = JUndefined, msg_name = nm, msg_size = sz,
      msg_chunk = JUndefined\<rparr>"

definition late_join_trace :: "event list" where
  "late_join_trace =
     [Message 2 (Some (TopObject (request ''register'' (JStr ''2222'')))) 5 5,
      Message 1 (Some (TopObject (request ''register'' (JStr ''1111'')))) 6 6,
      Message 2 (Some (TopObject (request ''join'' (JStr ''1111'')))) 7 7]"

section \<open>Invariants of the registry\<close>

subsection \<open>The keys stay distinct and well-formed\<close>

lemma rooms_send [simp]: "rooms (send s ws r) = rooms s"
  by (simp add: send_def)

lemma outbox_send [simp]: "outbox (send s ws r) = outbox s @ [(ws, r)]"
  by (simp add: send_def)

lemma keys_assignFound [simp]: "map fst (assignFound rs ws f) = map fst rs"
  by (induction rs) auto

lemma length_assignFound [simp]: "length (assignFound rs ws f) = length rs"
  by (induction rs) auto

lemma keys_ok_update:
  "keys_ok rs \<Longrightarrow> code_test k \<Longrightarrow> keys_ok (AList.update k v rs)"
  by (auto simp: keys_ok_def update_keys)

lemma keys_ok_delete: "keys_ok rs \<Longrightarrow> keys_ok (AList.delete k rs)"
  by (auto simp: keys_ok_def delete_keys list_all_iff distinct_removeAll)

lemma keys_ok_assignFound: "keys_ok rs \<Longrightarrow> keys_ok (assignFound rs ws f)"
  by (simp add: keys_ok_def)

lemma cleanupLoop_eq:
  "cleanupLoop s rs ws =
     (case findRoomByClient rs ws of
        None \<Rightarrow> s
      | Some room \<Rightarrow>
          s\<lparr>rooms := AList.delete (getRoomCode rs ws) (rooms s),
            outbox := outbox s @
              (case otherClient room ws of
                 None \<Rightarrow> []
               | Some c \<Rightarrow> [(c, Error ''Peer disconnected'')])\<rparr>)"
  by (induction rs) (auto simp: Let_def send_def split: option.splits)

lemma rooms_cleanupLoop:
  "rooms (cleanupLoop s rs ws) = rooms s \<or> (\<exists>k. rooms (cleanupLoop s rs ws) = AList.delete k (rooms s))"
  by (auto simp: cleanupLoop_eq split: option.splits)

lemma keys_ok_createRoom: "keys_ok (rooms s) \<Longrightarrow> keys_ok (rooms (createRoom s ws code t1 t2))"
  by (simp add: createRoom_def keys_ok_update)

lemma keys_ok_joinRoom: "keys_ok (rooms s) \<Longrightarrow> keys_ok (rooms (joinRoom s ws code t))"
  by (simp add: joinRoom_def keys_ok_update Let_def split: option.splits)

lemma keys_ok_forwardChunk: "keys_ok (rooms s) \<Longrightarrow> keys_ok (rooms (forwardChunk s ws m t))"
  by (simp add: forwardChunk_def keys_ok_assignFound split: option.splits)

lemma keys_ok_complete: "keys_ok (rooms s) \<Longrightarrow> keys_ok (rooms (handleTransferComplete s ws m))"
  by (simp add: handleTransferComplete_def keys_ok_delete Let_def split: option.splits)

lemma keys_ok_cleanup: "keys_ok (rooms s) \<Longrightarrow> keys_ok (rooms (cleanupRooms s ws))"
  using rooms_cleanupLoop [of s "rooms s" ws] by (auto simp: cleanupRooms_def keys_ok_delete)

lemma keys_ok_metadata: "keys_ok (rooms s) \<Longrightarrow> keys_ok (rooms (state_of (handleMetadata s ws m t)))"
  by (simp add: handleMetadata_def keys_ok_assignFound Let_def split: option.splits)

lemma keys_ok_handleMessage:
  "keys_ok (rooms s) \<Longrightarrow> keys_ok (rooms (state_of (handleMessage s ws d t1 t2)))"
  by (simp add: handleMessage_def keys_ok_createRoom keys_ok_joinRoom keys_ok_metadata
      keys_ok_forwardChunk keys_ok_complete split: parsed.splits)

lemma keys_ok_onMessage: "keys_ok (rooms s) \<Longrightarrow> keys_ok (rooms (onMessage s ws fr t1 t2))"
  using keys_ok_handleMessage [of s ws _ t1 t2]
  by (auto simp: onMessage_def split: option.splits outcome.splits) (metis state_of.simps)+

lemma keys_ok_step: "keys_ok (rooms s) \<Longrightarrow> keys_ok (rooms (step s e))"
  by (cases e) (simp_all add: keys_ok_onMessage keys_ok_cleanup)

lemma reachable_keys_ok: "reachable s \<Longrightarrow> keys_ok (rooms s)"
proof (induction rule: reachable.induct)
  case start
  show ?case by (simp add: init_def keys_ok_def)
next
  case (after s e)
  then show ?case by (simp add: keys_ok_step)
qed

lemma reachable_foldl: "reachable s \<Longrightarrow> reachable (foldl step s evs)"
  by (induction evs arbitrary: s) (simp_all add: reachable.after)

lemma reachable_run: "reachable (run evs)"
  by (simp add: run_def reachable_foldl reachable.start)

lemma reachable_code_test:
  "reachable s \<Longrightarrow> map_of (rooms s) code = Some room \<Longrightarrow> code_test code"
  using reachable_keys_ok [of s] 
  by (auto simp: keys_ok_def list_all_iff dest!: map_of_SomeD)

subsection \<open>The sample traces\<close>

lemma four_digits_1234: "four_digits ''1234''"
  by (simp add: four_digits_def is_digit_def)

lemma run_snoc: "run (evs @ [e]) = step (run evs) e"
  by (simp add: run_def)

lemma run_registered:
  "run registered_trace =
     \<lparr>rooms = [(JStr ''1234'', registered_room)], outbox = [(1, Registered (JStr ''1234''))]\<rparr>"
  by (simp add: run_def registered_trace_def request_def init_def onMessage_def handleMessage_def
      createRoom_def code_test_def four_digits_1234 send_def registered_room_def)

lemma run_paired:
  "run paired_trace =
     \<lparr>rooms = [(JStr ''1234'', paired_room)],
      outbox = [(1, Registered (JStr ''1234'')), (1, PeerConnected), (2, Connected (JStr ''1234''))]\<rparr>"
  by (simp add: paired_trace_def run_snoc run_registered request_def onMessage_def
      handleMessage_def joinRoom_def code_test_def four_digits_1234 send_def registered_room_def
      paired_room_def)

subsection \<open>The two scans\<close>

text \<open>
  \<^verbatim>\<open>findRoomByClient\<close> and \<^verbatim>\<open>getRoomCode\<close> stop at the same entry; with distinct keys the
  code names that entry.
\<close>

lemma find_None_iff:
  "findRoomByClient rs ws = None \<longleftrightarrow> (\<forall>(k, r) \<in> set rs. \<not> occupies r ws)"
  by (induction rs) (auto split: if_splits)

lemma find_Some_occupies: "findRoomByClient rs ws = Some room \<Longrightarrow> occupies room ws"
  by (induction rs) (auto split: if_splits)

lemma find_Some_mem:
  "findRoomByClient rs ws = Some room \<Longrightarrow> (getRoomCode rs ws, room) \<in> set rs"
  by (induction rs) (auto split: if_splits)

lemma find_Some_map_of:
  "distinct (map fst rs) \<Longrightarrow> findRoomByClient rs ws = Some room \<Longrightarrow>
   map_of rs (getRoomCode rs ws) = Some room"
  by (simp add: find_Some_mem)

lemma delete_found_eq:
  "distinct (map fst rs) \<Longrightarrow> findRoomByClient rs ws = Some room \<Longrightarrow>
   AList.delete (getRoomCode rs ws) rs = deleteResolved rs ws"
proof (induction rs)
  case Nil
  then show ?case by simp
next
  case (Cons p rs)
  obtain k r where p: "p = (k, r)" by (cases p)
  show ?case
  proof (cases "occupies r ws")
    case True
    with Cons.prems p show ?thesis by (auto simp: image_iff)
  next
    case False
    with Cons.prems p have found: "findRoomByClient rs ws = Some room" by simp
    then have "(getRoomCode rs ws, room) \<in> set rs" by (rule find_Some_mem)
    with Cons.prems(1) p have "getRoomCode rs ws \<noteq> k" by (auto simp: image_iff)
    with Cons.IH Cons.prems(1) found p False show ?thesis by simp
  qed
qed

lemma length_deleteResolved:
  "findRoomByClient rs ws = Some room \<Longrightarrow> length (deleteResolved rs ws) + 1 = length rs"
  by (induction rs) (auto split: if_splits)

lemma sent_append [simp]: "outbox s' = outbox s @ ms \<Longrightarrow> sent s s' = ms"
  by (simp add: sent_def)

lemma otherClient_of_peer:
  "occupies room ws \<Longrightarrow> c \<noteq> ws \<Longrightarrow> occupies room c \<Longrightarrow> otherClient room ws = Some c"
  by (auto simp: occupies_def otherClient_def)

lemma code_test_JNull [simp]: "\<not> code_test JNull"
  by (simp add: code_test_def four_digits_def is_digit_def)

lemma getRoomCode_cases: "getRoomCode rs c \<noteq> JNull \<Longrightarrow> getRoomCode rs c \<in> fst ` set rs"
  by (induction rs) (auto split: if_splits)

lemma find_delete_None:
  "\<forall>(k, r) \<in> set rs. occupies r c \<longrightarrow> k = code \<Longrightarrow>
   findRoomByClient (AList.delete code rs) c = None"
  by (auto simp: find_None_iff AList.delete_eq)

lemma four_digits_demo: "four_digits ''1111''" "four_digits ''2222''"
  by (simp_all add: four_digits_def is_digit_def)

lemma run_two_rooms:
  "run two_rooms_trace =
     \<lparr>rooms =
        [(JStr ''1111'',
          \<lparr>sender = 1, receiver = Some 2, metadata = None, createdAt = 5, lastActivity = 7\<rparr>),
         (JStr ''2222'',
          \<lparr>sender = 1, receiver = None, metadata = None, createdAt = 6, lastActivity = 6\<rparr>)],
      outbox =
        [(1, Registered (JStr ''1111'')), (1, Registered (JStr ''2222'')), (1, PeerConnected),
         (2, Connected (JStr ''1111''))]\<rparr>"
  by (simp add: run_def two_rooms_trace_def request_def init_def onMessage_def handleMessage_def
      createRoom_def joinRoom_def code_test_def four_digits_demo send_def)

subsection \<open>Roles under the handlers\<close>

lemma roles_append: "roles (xs @ ys) c = roles xs c + roles ys c"
  by (induction xs) auto

lemma update_absent: "map_of rs k = None \<Longrightarrow> AList.update k v rs = rs @ [(k, v)]"
  by (induction rs) (auto split: if_splits)

lemma roles_update_join:
  "map_of rs code = Some room \<Longrightarrow> receiver room = None \<Longrightarrow>
   roles (AList.update code (room\<lparr>receiver := Some ws, lastActivity := t\<rparr>) rs) c =
     roles rs c + (if c = ws then 1 else 0)"
  by (induction rs) (auto split: if_splits)

lemma roles_assignFound:
  "(\<And>r. sender (f r) = sender r \<and> receiver (f r) = receiver r) \<Longrightarrow>
   roles (assignFound rs ws f) c = roles rs c"
  by (induction rs) auto

lemma roles_delete_le: "roles (AList.delete k rs) c \<le> roles rs c"
  by (induction rs) auto

lemma roles_createRoom:
  "roles (rooms (createRoom s ws code t1 t2)) c \<le> roles (rooms s) c + (if c = ws then 1 else 0)"
  by (auto simp: createRoom_def update_absent roles_append)

lemma roles_joinRoom:
  "roles (rooms (joinRoom s ws code t)) c \<le> roles (rooms s) c + (if c = ws then 1 else 0)"
  by (auto simp: joinRoom_def Let_def roles_update_join split: option.splits)

lemma roles_forwardChunk: "roles (rooms (forwardChunk s ws m t)) c = roles (rooms s) c"
  by (simp add: forwardChunk_def roles_assignFound split: option.splits)

lemma roles_handleMetadata:
  "roles (rooms (state_of (handleMetadata s ws m t))) c = roles (rooms s) c"
  by (simp add: handleMetadata_def Let_def roles_assignFound split: option.splits)

lemma roles_complete: "roles (rooms (handleTransferComplete s ws m)) c \<le> roles (rooms s) c"
  by (simp add: handleTransferComplete_def Let_def roles_delete_le split: option.splits)

lemma roles_cleanup: "roles (rooms (cleanupRooms s ws)) c \<le> roles (rooms s) c"
  by (simp add: cleanupRooms_def cleanupLoop_eq roles_delete_le split: option.splits)

lemma onMessage_state_of:
  "rooms (onMessage s ws (Some d) t1 t2) = rooms (state_of (handleMessage s ws d t1 t2))"
  by (simp add: onMessage_def split: outcome.splits)

lemma roles_step_other:
  "requests_role e = None \<Longrightarrow> roles (rooms (step s e)) c \<le> roles (rooms s) c"
proof (cases e)
  case (Close ws)
  then show ?thesis by (simp add: roles_cleanup)
next
  case (Message ws fr t1 t2)
  assume none: "requests_role e = None"
  show ?thesis
  proof (cases fr)
    case None
    with Message show ?thesis by (simp add: onMessage_def)
  next
    case (Some d)
    show ?thesis
    proof (cases d)
      case TopNull
      with Message Some show ?thesis by (simp add: onMessage_def handleMessage_def)
    next
      case TopOther
      with Message Some show ?thesis by (simp add: onMessage_def handleMessage_def)
    next
      case (TopObject m)
      with Message Some none
      have "msg_type m \<noteq> JStr ''register''" and "msg_type m \<noteq> JStr ''join''"
        by (auto split: if_splits)
      with Message Some TopObject show ?thesis
        by (simp add: onMessage_state_of handleMessage_def roles_handleMetadata
            roles_forwardChunk roles_complete)
    qed
  qed
qed

lemma roles_step_request:
  "requests_role e = Some ws \<Longrightarrow>
   roles (rooms (step s e)) c \<le> roles (rooms s) c + (if c = ws then 1 else 0)"
proof (cases e)
  case (Close x)
  assume "requests_role e = Some ws"
  with Close show ?thesis by simp
next
  case (Message x fr t1 t2)
  assume "requests_role e = Some ws"
  with Message obtain m where fr: "fr = Some (TopObject m)" and x: "x = ws"
    and ty: "msg_type m = JStr ''register'' \<or> msg_type m = JStr ''join''"
    by (cases fr; cases "the fr") (auto split: if_splits)
  from ty show ?thesis
    using roles_createRoom [of s ws "msg_code m" t1 t2 c] roles_joinRoom [of s ws "msg_code m" t1 c]
    by (auto simp: Message fr x onMessage_state_of handleMessage_def)
qed

lemma disciplined_step:
  assumes "disciplined s e" and "\<And>c. roles (rooms s) c \<le> 1"
  shows "roles (rooms (step s e)) c \<le> 1"
proof (cases "requests_role e")
  case None
  then have "roles (rooms (step s e)) c \<le> roles (rooms s) c" by (rule roles_step_other)
  with assms(2) [of c] show ?thesis by simp
next
  case (Some ws)
  then have le: "roles (rooms (step s e)) c \<le> roles (rooms s) c + (if c = ws then 1 else 0)"
    by (rule roles_step_request)
  from Some assms(1) have "roles (rooms s) ws = 0" by (simp add: disciplined_def)
  with le assms(2) [of c] show ?thesis by (auto split: if_splits)
qed

lemma disciplined_foldl:
  "disciplined_run s evs \<Longrightarrow> (\<And>c. roles (rooms s) c \<le> 1) \<Longrightarrow>
   roles (rooms (foldl step s evs)) c \<le> 1"
proof (induction evs arbitrary: s c)
  case Nil
  then show ?case by simp
next
  case (Cons e evs)
  from Cons.prems(1) have de: "disciplined s e" and dr: "disciplined_run (step s e) evs"
    by simp_all
  have "roles (rooms (step s e)) c' \<le> 1" for c'
    using de Cons.prems(2) by (rule disciplined_step)
  with dr have "roles (rooms (foldl step (step s e) evs)) c \<le> 1" by (rule Cons.IH)
  then show ?case by simp
qed

lemma disciplined_run_snoc:
  "disciplined_run s (evs @ [e]) = (disciplined_run s evs \<and> disciplined (foldl step s evs) e)"
  by (induction evs arbitrary: s) auto

lemma run_Cons_init: "run [e] = step init e"
  by (simp add: run_def)

subsection \<open>Assignments through the resolved room\<close>

lemma assignFound_update:
  "distinct (map fst rs) \<Longrightarrow> findRoomByClient rs ws = Some room \<Longrightarrow>
   assignFound rs ws f = AList.update (getRoomCode rs ws) (f room) rs"
proof (induction rs)
  case Nil
  then show ?case by simp
next
  case (Cons p rs)
  obtain k r where p: "p = (k, r)" by (cases p)
  show ?case
  proof (cases "occupies r ws")
    case True
    with Cons.prems p show ?thesis by simp
  next
    case False
    with Cons.prems p have found: "findRoomByClient rs ws = Some room" by simp
    then have "(getRoomCode rs ws, room) \<in> set rs" by (rule find_Some_mem)
    with Cons.prems(1) p have "getRoomCode rs ws \<noteq> k" by (auto simp: image_iff)
    with Cons.IH Cons.prems(1) found p False show ?thesis by simp
  qed
qed

lemma find_assignFound:
  "findRoomByClient rs ws = Some room \<Longrightarrow> occupies (f room) ws \<Longrightarrow>
   findRoomByClient (assignFound rs ws f) ws = Some (f room)"
  by (induction rs) (auto split: if_splits)

lemma onMessage_metadata:
  "msg_type m = JStr ''metadata'' \<Longrightarrow>
   onMessage s ws (Some (TopObject m)) t1 t2 =
     (case handleMetadata s ws m t1 of
        Returned s' \<Rightarrow> s'
      | Thrown e s' \<Rightarrow> send s' ws (Error ''Invalid message format''))"
  by (simp add: onMessage_def handleMessage_def)

lemma size_limit_value: "size_limit = 209715200"
  by (simp add: size_limit_def)

subsection \<open>Numbers printed and read back\<close>

text \<open>\<^verbatim>\<open>parseInt\<close> of a number of the model is the number itself.\<close>

lemma digit_char_simps:
  "digit_char 0 = CHR ''0''" "digit_char 1 = CHR ''1''" "digit_char 2 = CHR ''2''"
  "digit_char 3 = CHR ''3''" "digit_char 4 = CHR ''4''" "digit_char 5 = CHR ''5''"
  "digit_char 6 = CHR ''6''" "digit_char 7 = CHR ''7''" "digit_char 8 = CHR ''8''"
  "digit_char 9 = CHR ''9''" "digit_char (Suc 0) = CHR ''1''"
  by (simp_all add: digit_char_def char_of_def bit_Suc_0_iff)

lemma digits10_small: "n < 10 \<Longrightarrow> digits10 n = [digit_char n]"
  by (simp add: digits10.simps)

lemma digits10_large: "\<not> n < 10 \<Longrightarrow> digits10 n = digits10 (n div 10) @ [digit_char (n mod 10)]"
  by (subst digits10.simps) simp

lemma of_char_digit_char: "d < 10 \<Longrightarrow> (of_char (digit_char d) :: nat) = 48 + d"
  by (simp add: digit_char_def)

lemma digit_val_digit_char: "d < 10 \<Longrightarrow> digit_val 10 (digit_char d) = Some d"
  by (simp add: digit_val_def of_char_digit_char)

lemma digit_char_plain:
  assumes "d < 10"
  shows "\<not> is_white (digit_char d)" and "digit_char d \<noteq> CHR ''-''" and "digit_char d \<noteq> CHR ''+''"
    and "digit_char d \<noteq> CHR ''x''" and "digit_char d \<noteq> CHR ''X''"
proof -
  have u: "(of_char (digit_char d) :: nat) = 48 + d" using assms by (rule of_char_digit_char)
  show "\<not> is_white (digit_char d)" using assms by (simp add: is_white_def u)
  have "(of_char (digit_char d) :: nat) \<noteq> of_char c"
    if "(of_char c :: nat) < 48 \<or> 57 < (of_char c :: nat)" for c
    using that assms u by auto
  then have ne: "digit_char d \<noteq> c" if "(of_char c :: nat) < 48 \<or> 57 < (of_char c :: nat)" for c
    using that by auto
  show "digit_char d \<noteq> CHR ''-''" by (rule ne) simp
  show "digit_char d \<noteq> CHR ''+''" by (rule ne) simp
  show "digit_char d \<noteq> CHR ''x''" by (rule ne) simp
  show "digit_char d \<noteq> CHR ''X''" by (rule ne) simp
qed

lemma plain_digits10: "plain_digits (digits10 n)"
proof (induction n rule: digits10.induct)
  case (1 n)
  show ?case
  proof (cases "n < 10")
    case True
    then show ?thesis by (auto simp: digits10_small plain_digits_def)
  next
    case False
    have "\<exists>d<10. digit_char (n mod 10) = digit_char d"
      by (rule exI [of _ "n mod 10"]) simp
    with False 1 show ?thesis by (simp add: digits10_large plain_digits_def)
  qed
qed

lemma digits10_nonempty: "digits10 n \<noteq> []"
  by (cases "n < 10") (simp_all add: digits10_small digits10_large)

lemma take_digits_append:
  "plain_digits xs \<Longrightarrow> take_digits 10 (xs @ ys) = take_digits 10 xs @ take_digits 10 ys"
  by (induction xs) (auto simp: plain_digits_def digit_val_digit_char)

lemma take_digits_nonempty: "plain_digits xs \<Longrightarrow> xs \<noteq> [] \<Longrightarrow> take_digits 10 xs \<noteq> []"
  by (cases xs) (auto simp: plain_digits_def digit_val_digit_char)

lemma digits_value_digits10: "digits_value 10 (take_digits 10 (digits10 n)) = n"
proof (induction n rule: digits10.induct)
  case (1 n)
  show ?case
  proof (cases "n < 10")
    case True
    then show ?thesis by (simp add: digits10_small digit_val_digit_char digits_value_def)
  next
    case False
    have "take_digits 10 (digits10 n) = take_digits 10 (digits10 (n div 10)) @ [n mod 10]"
      using False by (simp add: digits10_large take_digits_append plain_digits10 digit_val_digit_char)
    then have "digits_value 10 (take_digits 10 (digits10 n)) =
        digits_value 10 (take_digits 10 (digits10 (n div 10))) * 10 + n mod 10"
      by (simp add: digits_value_def)
    with False 1 show ?thesis by simp
  qed
qed

lemma digits10_head: "\<exists>d cs. d < 10 \<and> digits10 n = digit_char d # cs"
  using plain_digits10 [of n] digits10_nonempty [of n]
  by (cases "digits10 n") (auto simp: plain_digits_def)

lemma strip_prefix_digits10: "strip_prefix (digits10 n) = (10, digits10 n)"
proof -
  obtain d cs where d: "d < 10" and s: "digits10 n = digit_char d # cs"
    using digits10_head by blast
  show ?thesis
  proof (cases cs)
    case Nil
    then show ?thesis by (simp add: s strip_prefix_def)
  next
    case (Cons b bs)
    with plain_digits10 [of n] s obtain e where "e < 10" "b = digit_char e"
      by (auto simp: plain_digits_def)
    then have "b \<noteq> CHR ''x''" "b \<noteq> CHR ''X''" using digit_char_plain(4,5) by auto
    with Cons show ?thesis by (simp add: s strip_prefix_def)
  qed
qed

lemma take_digits_digits10: "take_digits 10 (digits10 n) \<noteq> []"
  using plain_digits10 digits10_nonempty by (rule take_digits_nonempty)

lemma parseInt_string_digits10: "parseInt_string (digits10 n) = Some (int n)"
proof -
  obtain d cs where d: "d < 10" and s: "digits10 n = digit_char d # cs"
    using digits10_head by blast
  have white: "dropWhile is_white (digits10 n) = digits10 n"
    using d digit_char_plain(1) by (simp add: s)
  have sign: "strip_sign (digits10 n) = (1, digits10 n)"
    using d digit_char_plain(2,3) by (simp add: s strip_sign_def)
  show ?thesis
    by (simp add: parseInt_string_def white sign strip_prefix_digits10 take_digits_digits10
        digits_value_digits10)
qed

lemma parseInt_string_negative: "parseInt_string (CHR ''-'' # digits10 n) = Some (- int n)"
proof -
  have nw: "\<not> is_white CHR ''-''" by (simp add: is_white_def)
  show ?thesis
    by (simp add: parseInt_string_def nw strip_sign_def strip_prefix_digits10
        take_digits_digits10 digits_value_digits10)
qed

lemma parseInt_JNum: "plain_number (JNum n) \<Longrightarrow> parseInt (JNum n) = Some n"
  using parseInt_string_digits10 [of "nat n"] parseInt_string_negative [of "nat (- n)"]
  by (simp add: parseInt_def)

lemmas parse_defs = parseInt_def parseInt_string_def strip_sign_def strip_prefix_def is_white_def
  digit_val_def digits_value_def

lemma ToString_demo:
  "ToString (JNum 100) = ''100''" "ToString (JNum 209715200) = ''209715200''"
  "ToString (JNum 209715201) = ''209715201''" "ToString (JNum (- 5)) = ''-5''"
  by (simp_all add: digits10_small digits10_large digit_char_simps)

lemma parseInt_demo:
  "parseInt (JNum 100) = Some 100" "parseInt (JNum 209715200) = Some 209715200"
  "parseInt (JNum 209715201) = Some 209715201" "parseInt (JNum (- 5)) = Some (- 5)"
  by (simp_all only: parseInt_def ToString_demo) (simp_all add: parse_defs)

lemma parseInt_undefined: "parseInt JUndefined = None"
  by (simp add: parse_defs)

lemma parseInt_strings:
  "parseInt (JStr ''abc'') = None" "parseInt (JStr ''-5'') = Some (- 5)"
  "parseInt (JStr ''300000000'') = Some 300000000"
  by (simp_all add: parse_defs)

subsection \<open>The outcomes of \<^verbatim>\<open>handleMetadata\<close>\<close>

lemma too_large_iff: "too_large v \<longleftrightarrow> (\<exists>n. v = Some n \<and> size_limit < n)"
  by (cases v) (auto simp: too_large_def)

lemma handleMetadata_accept:
  assumes "findRoomByClient (rooms s) ws = Some room" and "\<not> too_large (parseInt (msg_size m))"
    and "msg_name m = JStr nm"
  shows "handleMetadata s ws m t =
     Returned
       (s\<lparr>rooms := assignFound (rooms s) ws
              (\<lambda>r. r\<lparr>metadata :=
                       Some \<lparr>md_name = take 256 nm, md_size = parseInt (msg_size m),
                             md_type = msg_type m\<rparr>,
                     lastActivity := t\<rparr>),
          outbox := outbox s @
            (case receiver room of
               None \<Rightarrow> []
             | Some r \<Rightarrow>
                 [(r, MetadataFwd
                        \<lparr>md_name = take 256 nm, md_size = parseInt (msg_size m),
                         md_type = msg_type m\<rparr>)])\<rparr>)"
  using assms by (simp add: handleMetadata_def send_def Let_def split: option.splits)

lemma handleMetadata_reject:
  assumes "findRoomByClient (rooms s) ws = Some room" and "too_large (parseInt (msg_size m))"
  shows "handleMetadata s ws m t =
     Returned (s\<lparr>outbox := outbox s @ [(ws, Error ''File too large (max 500MB)'')]\<rparr>)"
  using assms by (simp add: handleMetadata_def send_def)

subsection \<open>Where the format error can come from\<close>

lemma name_slice_None_iff: "name_slice v = None \<longleftrightarrow> (\<forall>nm. v \<noteq> JStr nm)"
  by (cases v) auto

lemma sent_send [simp]: "sent s (send s ws r) = [(ws, r)]"
  by (simp add: sent_def)

lemma sent_self [simp]: "sent s s = []"
  by (simp add: sent_def)

lemma no_format_error_createRoom:
  "(c, Error ''Invalid message format'') \<notin> set (sent s (createRoom s ws code t1 t2))"
  by (simp add: createRoom_def sent_def send_def)

lemma no_format_error_joinRoom:
  "(c, Error ''Invalid message format'') \<notin> set (sent s (joinRoom s ws code t))"
  by (simp add: joinRoom_def sent_def send_def Let_def split: option.splits)

lemma no_format_error_forwardChunk:
  "(c, Error ''Invalid message format'') \<notin> set (sent s (forwardChunk s ws m t))"
  by (simp add: forwardChunk_def sent_def send_def split: option.splits)

lemma no_format_error_complete:
  "(c, Error ''Invalid message format'') \<notin> set (sent s (handleTransferComplete s ws m))"
  by (simp add: handleTransferComplete_def sent_def send_def Let_def split: option.splits)

lemma format_error_metadata:
  "(c, Error ''Invalid message format'')
     \<in> set (sent s (case handleMetadata s ws m t of
                       Returned s' \<Rightarrow> s'
                     | Thrown e s' \<Rightarrow> send s' ws (Error ''Invalid message format'')))
   \<longleftrightarrow> c = ws \<and> (\<exists>room. findRoomByClient (rooms s) ws = Some room)
       \<and> \<not> too_large (parseInt (msg_size m)) \<and> name_slice (msg_name m) = None"
  by (auto simp: handleMetadata_def sent_def send_def Let_def split: option.splits)

lemma size_error_metadata:
  "(c, Error ''File too large (max 500MB)'')
     \<in> set (sent s (case handleMetadata s ws m t of
                       Returned s' \<Rightarrow> s'
                     | Thrown e s' \<Rightarrow> send s' ws (Error ''Invalid message format'')))
   \<longleftrightarrow> c = ws \<and> (\<exists>room. findRoomByClient (rooms s) ws = Some room)
       \<and> too_large (parseInt (msg_size m))"
  by (auto simp: handleMetadata_def sent_def send_def Let_def split: option.splits)

subsection \<open>Two occupants of one room\<close>

lemma find_of_member:
  "(k, room) \<in> set rs \<Longrightarrow> occupies room c \<Longrightarrow> \<exists>r. findRoomByClient rs c = Some r"
  using find_None_iff [of rs c] by (cases "findRoomByClient rs c") auto

lemma same_code_same_room:
  assumes "distinct (map fst rs)" and "findRoomByClient rs a = Some ra"
    and "findRoomByClient rs b = Some rb" and "getRoomCode rs a = getRoomCode rs b"
  shows "ra = rb \<and> assignFound rs a f = assignFound rs b f"
proof -
  have "map_of rs (getRoomCode rs a) = Some ra" using assms(1,2) by (rule find_Some_map_of)
  moreover have "map_of rs (getRoomCode rs b) = Some rb" using assms(1,3) by (rule find_Some_map_of)
  ultimately have "ra = rb" using assms(4) by simp
  then show ?thesis
    using assignFound_update [OF assms(1,2), of f] assignFound_update [OF assms(1,3), of f] assms(4)
    by simp
qed

lemma run_late_join:
  "run late_join_trace =
     \<lparr>rooms =
        [(JStr ''2222'',
          \<lparr>sender = 2, receiver = None, metadata = None, createdAt = 5, lastActivity = 5\<rparr>),
         (JStr ''1111'',
          \<lparr>sender = 1, receiver = Some 2, metadata = None, createdAt = 6, lastActivity = 7\<rparr>)],
      outbox =
        [(2, Registered (JStr ''2222'')), (1, Registered (JStr ''1111'')), (1, PeerConnected),
         (2, Connected (JStr ''1111''))]\<rparr>"
  by (simp add: run_def late_join_trace_def request_def init_def onMessage_def handleMessage_def
      createRoom_def joinRoom_def code_test_def four_digits_demo send_def)

lemma parseInt_fraction: "parseInt (JStr ''209715200.5'') = Some 209715200"
  by (simp add: parse_defs)

section \<open>The claims\<close>

subsection \<open>Roles of a connection\<close>

text \<open>
  C1, as amended. When every \<^verbatim>\<open>register\<close> and \<^verbatim>\<open>join\<close> message comes from a connection that
  holds no role at that moment, each connection holds at most one role (sender or receiver
  of a live room) in every state the server reaches. The server itself has no guard: a
  \<^verbatim>\<open>register\<close> on a free code and a \<^verbatim>\<open>join\<close> on a room without receiver give the requesting
  connection one more role, whatever it holds already.
\<close>

theorem one_role_under_discipline:
  "(disciplined_run init evs \<longrightarrow> roles (rooms (run evs)) c \<le> 1)
   \<and> (code_test code \<and> map_of (rooms s) code = None \<longrightarrow>
        roles (rooms (createRoom s ws code t1 t2)) ws = roles (rooms s) ws + 1)
   \<and> (code_test code \<and> map_of (rooms s) code = Some room \<and> receiver room = None \<longrightarrow>
        roles (rooms (joinRoom s ws code t)) ws = roles (rooms s) ws + 1)"
proof (intro conjI impI)
  assume "disciplined_run init evs"
  then show "roles (rooms (run evs)) c \<le> 1"
    unfolding run_def by (rule disciplined_foldl) (simp add: init_def)
next
  assume "code_test code \<and> map_of (rooms s) code = None"
  then show "roles (rooms (createRoom s ws code t1 t2)) ws = roles (rooms s) ws + 1"
    by (simp add: createRoom_def update_absent roles_append)
next
  assume "code_test code \<and> map_of (rooms s) code = Some room \<and> receiver room = None"
  then show "roles (rooms (joinRoom s ws code t)) ws = roles (rooms s) ws + 1"
    by (simp add: joinRoom_def Let_def roles_update_join)
qed

theorem one_role_under_discipline_witness:
  "disciplined_run init paired_trace
   \<and> roles (rooms (run paired_trace)) 1 = 1 \<and> roles (rooms (run paired_trace)) 2 = 1
   \<and> roles (rooms (run paired_trace)) 3 = 0
   \<and> roles (rooms (createRoom (run paired_trace) 3 (JStr ''2222'') 8 8)) 3 = 1
   \<and> roles (rooms (joinRoom (run registered_trace) 2 (JStr ''1234'') 7)) 2 = 1"
proof -
  have "disciplined_run init registered_trace"
    by (simp add: registered_trace_def disciplined_def request_def init_def)
  moreover have "disciplined (run registered_trace)
      (Message 2 (Some (TopObject (request ''join'' (JStr ''1234'')))) 7 7)"
    by (simp add: disciplined_def request_def run_registered registered_room_def)
  ultimately have d: "disciplined_run init paired_trace"
    by (simp add: paired_trace_def disciplined_run_snoc run_def)
  show ?thesis
    using d one_role_under_discipline [of paired_trace 1 "JStr ''2222''" "run paired_trace" 3 8 8
        registered_room 7]
      one_role_under_discipline [of paired_trace 2 "JStr ''1234''" "run registered_trace" 2 8 8
        registered_room 7]
      one_role_under_discipline [of paired_trace 3]
    by (simp add: run_paired run_registered paired_room_def registered_room_def code_test_def
        four_digits_demo four_digits_1234)
qed

text \<open>
  As stated, C1 holds of every reachable state. Connection 1 registers \<^verbatim>\<open>"1111"\<close> and then
  \<^verbatim>\<open>"2222"\<close>: it is the sender of two live rooms.
\<close>

theorem second_role_counterexample:
  "reachable (run two_rooms_trace)
   \<and> map (\<lambda>(code, room). (code, sender room)) (rooms (run two_rooms_trace)) =
       [(JStr ''1111'', 1), (JStr ''2222'', 1)]
   \<and> length (filter (\<lambda>(code, room). occupies room 1) (rooms (run two_rooms_trace))) = 2
   \<and> roles (rooms (run two_rooms_trace)) 1 = 2"
  by (simp add: reachable_run) (simp add: run_two_rooms occupies_def)


subsection \<open>Codes that fail the pattern\<close>

text \<open>
  C2. For every code string that does not match \<^verbatim>\<open>^\d{4}$\<close>, \<^verbatim>\<open>register\<close> and \<^verbatim>\<open>join\<close>
  both send the error \<^verbatim>\<open>Invalid room code format\<close> to the requesting connection and
  leave the registry as it was: no room is created and none is changed.
\<close>

theorem invalid_code_rejected:
  assumes "\<not> four_digits c"
  shows "createRoom s ws (JStr c) t1 t2 = s\<lparr>outbox := outbox s @ [(ws, Error ''Invalid room code format'')]\<rparr>
       \<and> joinRoom s ws (JStr c) t = s\<lparr>outbox := outbox s @ [(ws, Error ''Invalid room code format'')]\<rparr>
       \<and> rooms (createRoom s ws (JStr c) t1 t2) = rooms s
       \<and> rooms (joinRoom s ws (JStr c) t) = rooms s
       \<and> (msg_code m = JStr c \<and> (msg_type m = JStr ''register'' \<or> msg_type m = JStr ''join'') \<longrightarrow>
            onMessage s ws (Some (TopObject m)) t1 t2 =
              s\<lparr>outbox := outbox s @ [(ws, Error ''Invalid room code format'')]\<rparr>)"
  using assms
  by (auto simp: onMessage_def handleMessage_def createRoom_def joinRoom_def code_test_def send_def)

theorem invalid_code_rejected_witness:
  "\<not> four_digits ''12a4''
   \<and> createRoom init 1 (JStr ''12a4'') 5 6 = init\<lparr>outbox := [(1, Error ''Invalid room code format'')]\<rparr>
   \<and> joinRoom init 1 (JStr ''12a4'') 7 = init\<lparr>outbox := [(1, Error ''Invalid room code format'')]\<rparr>
   \<and> onMessage init 1 (Some (TopObject (request ''register'' (JStr ''12a4'')))) 5 6 =
       init\<lparr>outbox := [(1, Error ''Invalid room code format'')]\<rparr>
   \<and> onMessage (run registered_trace) 2 (Some (TopObject (request ''join'' (JStr ''123'')))) 7 7 =
       \<lparr>rooms = [(JStr ''1234'', registered_room)],
        outbox = [(1, Registered (JStr ''1234'')), (2, Error ''Invalid room code format'')]\<rparr>"
  using
    invalid_code_rejected [where c = "''12a4''" and s = init and ws = 1 and ?t1.0 = 5 and ?t2.0 = 6
      and t = 7 and m = "request ''register'' (JStr ''12a4'')"]
    invalid_code_rejected [where c = "''123''" and s = "run registered_trace" and ws = 2
      and ?t1.0 = 7 and ?t2.0 = 7 and t = 7 and m = "request ''join'' (JStr ''123'')"]
  by (simp add: four_digits_def is_digit_def init_def request_def run_registered)


subsection \<open>Registering a code that is taken\<close>

text \<open>
  C3. For every code that passes the pattern and already maps to a live room, \<^verbatim>\<open>register\<close>
  from any connection sends the error \<^verbatim>\<open>Room already exists\<close> and changes nothing in the
  registry: the room under the code keeps every field, and no room is added.
\<close>

theorem duplicate_code_rejected:
  assumes "code_test code" and "map_of (rooms s) code = Some room"
  shows "createRoom s ws code t1 t2 = s\<lparr>outbox := outbox s @ [(ws, Error ''Room already exists'')]\<rparr>
       \<and> rooms (createRoom s ws code t1 t2) = rooms s
       \<and> map_of (rooms (createRoom s ws code t1 t2)) code = Some room"
  using assms by (simp add: createRoom_def send_def)

theorem duplicate_code_rejected_witness:
  "code_test (JStr ''1234'') \<and> map_of (rooms (run registered_trace)) (JStr ''1234'') = Some registered_room
   \<and> createRoom (run registered_trace) 3 (JStr ''1234'') 8 9 =
       \<lparr>rooms = [(JStr ''1234'', registered_room)],
        outbox = [(1, Registered (JStr ''1234'')), (3, Error ''Room already exists'')]\<rparr>"
  using duplicate_code_rejected [of "JStr ''1234''" "run registered_trace" registered_room 3 8 9]
  by (simp add: run_registered code_test_def four_digits_1234)

subsection \<open>Joining a room\<close>

text \<open>
  C4. In every reachable state, for every room of the registry: when its receiver is set,
  \<^verbatim>\<open>join\<close> on its code sends the error \<^verbatim>\<open>Room is already occupied\<close> and the room is
  untouched; when its receiver is unset, \<^verbatim>\<open>join\<close> on its code sets the receiver to the
  joining connection, sets \<^verbatim>\<open>lastActivity\<close>, sends \<^verbatim>\<open>peerConnected\<close> to the sender and then
  \<^verbatim>\<open>connected\<close> with the code to the joining connection.
\<close>

theorem join_full_or_free:
  assumes "reachable s" and "map_of (rooms s) code = Some room"
  shows "(receiver room \<noteq> None \<longrightarrow>
            joinRoom s ws code t = s\<lparr>outbox := outbox s @ [(ws, Error ''Room is already occupied'')]\<rparr>
          \<and> map_of (rooms (joinRoom s ws code t)) code = Some room)
       \<and> (receiver room = None \<longrightarrow>
            joinRoom s ws code t =
              s\<lparr>rooms := AList.update code (room\<lparr>receiver := Some ws, lastActivity := t\<rparr>) (rooms s),
                outbox := outbox s @ [(sender room, PeerConnected), (ws, Connected code)]\<rparr>
          \<and> map_of (rooms (joinRoom s ws code t)) code =
              Some (room\<lparr>receiver := Some ws, lastActivity := t\<rparr>))"
proof -
  have "code_test code" using assms by (rule reachable_code_test)
  then show ?thesis using assms(2)
    by (simp add: joinRoom_def send_def Let_def update_conv')
qed

theorem join_full_or_free_witness:
  "reachable (run paired_trace) \<and> reachable (run registered_trace)
   \<and> joinRoom (run paired_trace) 3 (JStr ''1234'') 9 =
       (run paired_trace)\<lparr>outbox := outbox (run paired_trace) @ [(3, Error ''Room is already occupied'')]\<rparr>
   \<and> joinRoom (run registered_trace) 2 (JStr ''1234'') 7 = run paired_trace"
proof -
  have full: "reachable (run paired_trace)" and free: "reachable (run registered_trace)"
    by (rule reachable_run)+
  show ?thesis
    using full free
      join_full_or_free [OF full, of "JStr ''1234''" paired_room 3 9]
      join_full_or_free [OF free, of "JStr ''1234''" registered_room 2 7]
    by (simp add: run_paired run_registered paired_room_def registered_room_def)
qed

subsection \<open>Closing a connection\<close>

text \<open>
  C7. In every reachable state, for every connection that closes: when it occupies no room,
  the state is unchanged (the registry keeps its size and no message is sent); when it
  occupies a room, the scan resolves a room for it, that room and no other is removed from
  the registry, and an occupant of that room other than the closing connection is sent
  exactly one message, the error \<^verbatim>\<open>Peer disconnected\<close>.
\<close>

theorem close_notifies_peer:
  assumes "reachable s"
  shows "((\<forall>(k, r) \<in> set (rooms s). \<not> occupies r ws) \<longrightarrow> cleanupRooms s ws = s)
       \<and> ((\<exists>(k, r) \<in> set (rooms s). occupies r ws) \<longrightarrow>
            (\<exists>room. findRoomByClient (rooms s) ws = Some room))
       \<and> (\<forall>room. findRoomByClient (rooms s) ws = Some room \<longrightarrow>
            cleanupRooms s ws =
              s\<lparr>rooms := AList.delete (getRoomCode (rooms s) ws) (rooms s),
                outbox := outbox s @
                  (case otherClient room ws of
                     None \<Rightarrow> []
                   | Some c \<Rightarrow> [(c, Error ''Peer disconnected'')])\<rparr>
          \<and> map_of (rooms s) (getRoomCode (rooms s) ws) = Some room
          \<and> map_of (rooms (cleanupRooms s ws)) (getRoomCode (rooms s) ws) = None
          \<and> (\<forall>k. k \<noteq> getRoomCode (rooms s) ws \<longrightarrow>
                map_of (rooms (cleanupRooms s ws)) k = map_of (rooms s) k)
          \<and> length (rooms (cleanupRooms s ws)) + 1 = length (rooms s)
          \<and> (\<forall>c. c \<noteq> ws \<and> occupies room c \<longrightarrow>
                sent s (cleanupRooms s ws) = [(c, Error ''Peer disconnected'')]))"
proof (intro conjI allI impI)
  assume "\<forall>(k, r) \<in> set (rooms s). \<not> occupies r ws"
  then have "findRoomByClient (rooms s) ws = None" by (simp add: find_None_iff)
  then show "cleanupRooms s ws = s" by (simp add: cleanupRooms_def cleanupLoop_eq)
next
  assume "\<exists>(k, r) \<in> set (rooms s). occupies r ws"
  then show "\<exists>room. findRoomByClient (rooms s) ws = Some room"
    using find_of_member by fastforce
next
  fix room
  assume found: "findRoomByClient (rooms s) ws = Some room"
  have dist: "distinct (map fst (rooms s))"
    using assms reachable_keys_ok by (auto simp: keys_ok_def)
  show eq: "cleanupRooms s ws =
      s\<lparr>rooms := AList.delete (getRoomCode (rooms s) ws) (rooms s),
        outbox := outbox s @
          (case otherClient room ws of
             None \<Rightarrow> []
           | Some c \<Rightarrow> [(c, Error ''Peer disconnected'')])\<rparr>"
    using found by (simp add: cleanupRooms_def cleanupLoop_eq)
  show "map_of (rooms s) (getRoomCode (rooms s) ws) = Some room"
    using dist found by (rule find_Some_map_of)
  show "map_of (rooms (cleanupRooms s ws)) (getRoomCode (rooms s) ws) = None"
    by (simp add: eq delete_conv')
  show "length (rooms (cleanupRooms s ws)) + 1 = length (rooms s)"
    using length_deleteResolved [OF found] delete_found_eq [OF dist found] by (simp add: eq)
  { fix k assume "k \<noteq> getRoomCode (rooms s) ws"
    then show "map_of (rooms (cleanupRooms s ws)) k = map_of (rooms s) k"
      by (simp add: eq) }
  { fix c assume "c \<noteq> ws \<and> occupies room c"
    with find_Some_occupies [OF found] have "otherClient room ws = Some c"
      by (simp add: otherClient_of_peer)
    then show "sent s (cleanupRooms s ws) = [(c, Error ''Peer disconnected'')]"
      by (simp add: eq) }
qed

theorem close_notifies_peer_witness:
  "reachable (run paired_trace)
   \<and> cleanupRooms (run paired_trace) 1 =
       \<lparr>rooms = [], outbox = outbox (run paired_trace) @ [(2, Error ''Peer disconnected'')]\<rparr>
   \<and> cleanupRooms (run paired_trace) 2 =
       \<lparr>rooms = [], outbox = outbox (run paired_trace) @ [(1, Error ''Peer disconnected'')]\<rparr>
   \<and> cleanupRooms (run paired_trace) 3 = run paired_trace"
proof -
  have r: "reachable (run paired_trace)" by (rule reachable_run)
  show ?thesis
    using r close_notifies_peer [OF r, of 1] close_notifies_peer [OF r, of 2]
      close_notifies_peer [OF r, of 3]
    by (simp add: run_paired paired_room_def occupies_def otherClient_def)
qed

subsection \<open>Completing a transfer\<close>

text \<open>
  C6, as amended. In every reachable state, when the scan for a connection resolves a room
  whose receiver is set, \<^verbatim>\<open>complete\<close> from that connection sends \<^verbatim>\<open>complete\<close> to the receiver
  and removes that room. Deleting by the code that the second scan \<^verbatim>\<open>getRoomCode\<close> returns
  gives the same registry as removing the resolved room object. Afterwards the code of the
  room is no longer in the registry, so no scan resolves that room; a former occupant that
  occupied no other room resolves no room at all.
\<close>

theorem complete_removes_room:
  assumes "reachable s" and "findRoomByClient (rooms s) ws = Some room"
    and "receiver room = Some r"
  shows "handleTransferComplete s ws m =
           s\<lparr>rooms := AList.delete (getRoomCode (rooms s) ws) (rooms s),
             outbox := outbox s @ [(r, Complete)]\<rparr>
       \<and> AList.delete (getRoomCode (rooms s) ws) (rooms s) = deleteResolved (rooms s) ws
       \<and> handleTransferComplete s ws m = completeSingleLookup s ws
       \<and> map_of (rooms s) (getRoomCode (rooms s) ws) = Some room
       \<and> map_of (rooms (handleTransferComplete s ws m)) (getRoomCode (rooms s) ws) = None
       \<and> (\<forall>c. getRoomCode (rooms (handleTransferComplete s ws m)) c \<noteq> getRoomCode (rooms s) ws)
       \<and> (\<forall>c. (\<forall>(k, r') \<in> set (rooms s). occupies r' c \<longrightarrow> k = getRoomCode (rooms s) ws) \<longrightarrow>
              findRoomByClient (rooms (handleTransferComplete s ws m)) c = None)"
proof -
  let ?code = "getRoomCode (rooms s) ws"
  have ok: "keys_ok (rooms s)" using assms(1) by (rule reachable_keys_ok)
  then have dist: "distinct (map fst (rooms s))" by (simp add: keys_ok_def)
  have eq: "handleTransferComplete s ws m =
      s\<lparr>rooms := AList.delete ?code (rooms s), outbox := outbox s @ [(r, Complete)]\<rparr>"
    using assms(2,3) by (simp add: handleTransferComplete_def send_def Let_def)
  have same: "AList.delete ?code (rooms s) = deleteResolved (rooms s) ws"
    using dist assms(2) by (rule delete_found_eq)
  have at: "map_of (rooms s) ?code = Some room"
    using dist assms(2) by (rule find_Some_map_of)
  have gone: "map_of (rooms (handleTransferComplete s ws m)) ?code = None"
    by (simp add: eq delete_conv')
  have "code_test ?code" using assms(1) at by (rule reachable_code_test)
  then have notnull: "?code \<noteq> JNull" by auto
  have unresolved: "getRoomCode (rooms (handleTransferComplete s ws m)) c \<noteq> ?code" for c
    using getRoomCode_cases [of "AList.delete ?code (rooms s)" c] notnull
      delete_notin_dom [of ?code "rooms s"]
    by (auto simp: eq)
  have none: "findRoomByClient (rooms (handleTransferComplete s ws m)) c = None"
    if "\<forall>(k, r') \<in> set (rooms s). occupies r' c \<longrightarrow> k = ?code" for c
    using that by (simp add: eq find_delete_None)
  have single: "handleTransferComplete s ws m = completeSingleLookup s ws"
    using assms(2,3) same by (simp add: eq completeSingleLookup_def send_def)
  from eq same single at gone unresolved none show ?thesis by blast
qed

theorem complete_removes_room_witness:
  "reachable (run paired_trace)
   \<and> findRoomByClient (rooms (run paired_trace)) 1 = Some paired_room
   \<and> receiver paired_room = Some 2
   \<and> handleTransferComplete (run paired_trace) 1 (request ''complete'' JUndefined) =
       \<lparr>rooms = [], outbox = outbox (run paired_trace) @ [(2, Complete)]\<rparr>
   \<and> handleTransferComplete (run paired_trace) 1 (request ''complete'' JUndefined) =
       completeSingleLookup (run paired_trace) 1
   \<and> findRoomByClient
         (rooms (handleTransferComplete (run paired_trace) 1 (request ''complete'' JUndefined))) 1 =
       None
   \<and> findRoomByClient
         (rooms (handleTransferComplete (run paired_trace) 1 (request ''complete'' JUndefined))) 2 =
       None"
proof -
  let ?s = "run paired_trace" and ?m = "request ''complete'' JUndefined"
  have r: "reachable ?s" by (rule reachable_run)
  have found: "findRoomByClient (rooms ?s) 1 = Some paired_room"
    by (simp add: run_paired occupies_def paired_room_def)
  have recv: "receiver paired_room = Some 2" by (simp add: paired_room_def)
  note w = complete_removes_room [OF r found recv, of ?m]
  have only: "\<forall>(k, r') \<in> set (rooms ?s). occupies r' c \<longrightarrow> k = getRoomCode (rooms ?s) 1" for c
    by (simp add: run_paired occupies_def paired_room_def)
  from w have "handleTransferComplete ?s 1 ?m =
      ?s\<lparr>rooms := AList.delete (getRoomCode (rooms ?s) 1) (rooms ?s),
         outbox := outbox ?s @ [(2, Complete)]\<rparr>"
    by blast
  then have eq: "handleTransferComplete ?s 1 ?m =
      \<lparr>rooms = [], outbox = outbox ?s @ [(2, Complete)]\<rparr>"
    by (simp add: run_paired occupies_def paired_room_def)
  from w have single: "handleTransferComplete ?s 1 ?m = completeSingleLookup ?s 1" by blast
  from w only have "findRoomByClient (rooms (handleTransferComplete ?s 1 ?m)) 1 = None"
    and "findRoomByClient (rooms (handleTransferComplete ?s 1 ?m)) 2 = None"
    by blast+
  with r found recv eq single show ?thesis by blast
qed

text \<open>
  As stated, C6 says that afterwards no room resolves for either former occupant. That
  fails for a connection that holds a second room: connection 1 registered two rooms,
  connection 2 joined the first, and after \<^verbatim>\<open>complete\<close> the scan for connection 1 resolves
  the second. It also says that \<^verbatim>\<open>complete\<close> from an occupant removes every paired room:
  connection 2 registered \<^verbatim>\<open>"2222"\<close> and then joined \<^verbatim>\<open>"1111"\<close>, the scan resolves its own
  room, which has no receiver, and its \<^verbatim>\<open>complete\<close> changes nothing.
\<close>

theorem complete_other_room_counterexample:
  "reachable (run two_rooms_trace)
   \<and> findRoomByClient (rooms (run two_rooms_trace)) 1 =
       Some \<lparr>sender = 1, receiver = Some 2, metadata = None, createdAt = 5, lastActivity = 7\<rparr>
   \<and> findRoomByClient
        (rooms (handleTransferComplete (run two_rooms_trace) 1 (request ''complete'' JUndefined))) 1 =
       Some \<lparr>sender = 1, receiver = None, metadata = None, createdAt = 6, lastActivity = 6\<rparr>
   \<and> reachable (run late_join_trace)
   \<and> map_of (rooms (run late_join_trace)) (JStr ''1111'') =
       Some \<lparr>sender = 1, receiver = Some 2, metadata = None, createdAt = 6, lastActivity = 7\<rparr>
   \<and> handleTransferComplete (run late_join_trace) 2 (request ''complete'' JUndefined) =
       run late_join_trace"
  by (simp add: reachable_run)
    (simp add: run_two_rooms run_late_join handleTransferComplete_def occupies_def send_def)


subsection \<open>The size limit of \<^verbatim>\<open>metadata\<close>\<close>

text \<open>
  C5, as amended. The limit is \<open>200 * 1024 * 1024 = 209715200\<close>. For every \<^verbatim>\<open>metadata\<close>
  message from a connection for which the scan resolves a room: when \<^verbatim>\<open>parseInt\<close> reads the
  size as a number strictly above the limit, the connection is sent the error
  \<^verbatim>\<open>File too large (max 500MB)\<close> and the registry is unchanged, so the room keeps its
  metadata and \<^verbatim>\<open>lastActivity\<close>; when it reads a number up to the limit and the name is a
  string, the metadata is stored in the room with the name cut to 256 code units,
  \<^verbatim>\<open>lastActivity\<close> is set, and the metadata is sent to the receiver if there is one. A size
  given as a number is below \<open>10^21\<close> in magnitude, and \<^verbatim>\<open>parseInt\<close> reads it as itself.
\<close>

theorem metadata_size_limit:
  assumes "msg_type m = JStr ''metadata''" and "findRoomByClient (rooms s) ws = Some room"
    and "plain_number (msg_size m)"
  shows "size_limit = 209715200
       \<and> (\<forall>n. msg_size m = JNum n \<longrightarrow> parseInt (msg_size m) = Some n)
       \<and> (\<forall>n. parseInt (msg_size m) = Some n \<and> size_limit < n \<longrightarrow>
            onMessage s ws (Some (TopObject m)) t1 t2 =
              s\<lparr>outbox := outbox s @ [(ws, Error ''File too large (max 500MB)'')]\<rparr>
          \<and> findRoomByClient (rooms (onMessage s ws (Some (TopObject m)) t1 t2)) ws = Some room)
       \<and> (\<forall>n nm. parseInt (msg_size m) = Some n \<and> n \<le> size_limit \<and> msg_name m = JStr nm \<longrightarrow>
            onMessage s ws (Some (TopObject m)) t1 t2 =
              s\<lparr>rooms := assignFound (rooms s) ws
                    (\<lambda>r. r\<lparr>metadata :=
                             Some \<lparr>md_name = take 256 nm, md_size = Some n, md_type = msg_type m\<rparr>,
                           lastActivity := t1\<rparr>),
                outbox := outbox s @
                  (case receiver room of
                     None \<Rightarrow> []
                   | Some r \<Rightarrow>
                       [(r, MetadataFwd
                              \<lparr>md_name = take 256 nm, md_size = Some n, md_type = msg_type m\<rparr>)])\<rparr>
          \<and> findRoomByClient (rooms (onMessage s ws (Some (TopObject m)) t1 t2)) ws =
              Some (room\<lparr>metadata :=
                            Some \<lparr>md_name = take 256 nm, md_size = Some n, md_type = msg_type m\<rparr>,
                         lastActivity := t1\<rparr>))"
proof (intro conjI allI impI)
  show "size_limit = 209715200" by (rule size_limit_value)
next
  fix n
  assume "msg_size m = JNum n"
  with assms(3) show "parseInt (msg_size m) = Some n" by (simp add: parseInt_JNum)
next
  fix n
  assume "parseInt (msg_size m) = Some n \<and> size_limit < n"
  then have "handleMetadata s ws m t1 = Returned (send s ws (Error ''File too large (max 500MB)''))"
    using assms(2) by (simp add: handleMetadata_def too_large_def)
  then have eq: "onMessage s ws (Some (TopObject m)) t1 t2 =
      s\<lparr>outbox := outbox s @ [(ws, Error ''File too large (max 500MB)'')]\<rparr>"
    using assms(1) by (simp add: onMessage_metadata send_def)
  then show "onMessage s ws (Some (TopObject m)) t1 t2 =
      s\<lparr>outbox := outbox s @ [(ws, Error ''File too large (max 500MB)'')]\<rparr>" .
  show "findRoomByClient (rooms (onMessage s ws (Some (TopObject m)) t1 t2)) ws = Some room"
    using assms(2) by (simp add: eq)
next
  fix n nm
  let ?md = "\<lparr>md_name = take 256 nm, md_size = Some n, md_type = msg_type m\<rparr>"
  assume a: "parseInt (msg_size m) = Some n \<and> n \<le> size_limit \<and> msg_name m = JStr nm"
  then have eq: "onMessage s ws (Some (TopObject m)) t1 t2 =
      s\<lparr>rooms := assignFound (rooms s) ws (\<lambda>r. r\<lparr>metadata := Some ?md, lastActivity := t1\<rparr>),
        outbox := outbox s @
          (case receiver room of None \<Rightarrow> [] | Some r \<Rightarrow> [(r, MetadataFwd ?md)])\<rparr>"
    using assms(1,2)
    by (simp add: onMessage_metadata handleMetadata_def too_large_def send_def Let_def
        split: option.splits)
  then show "onMessage s ws (Some (TopObject m)) t1 t2 =
      s\<lparr>rooms := assignFound (rooms s) ws (\<lambda>r. r\<lparr>metadata := Some ?md, lastActivity := t1\<rparr>),
        outbox := outbox s @
          (case receiver room of None \<Rightarrow> [] | Some r \<Rightarrow> [(r, MetadataFwd ?md)])\<rparr>" .
  have "occupies room ws" using assms(2) by (rule find_Some_occupies)
  then have "occupies (room\<lparr>metadata := Some ?md, lastActivity := t1\<rparr>) ws"
    by (simp add: occupies_def)
  with assms(2) show "findRoomByClient (rooms (onMessage s ws (Some (TopObject m)) t1 t2)) ws =
      Some (room\<lparr>metadata := Some ?md, lastActivity := t1\<rparr>)"
    by (simp add: eq find_assignFound)
qed

theorem metadata_size_limit_witness:
  "findRoomByClient (rooms (run paired_trace)) 1 = Some paired_room
   \<and> plain_number (JNum 209715201) \<and> plain_number (JNum 209715200)
   \<and> parseInt (JNum 209715201) = Some 209715201
   \<and> onMessage (run paired_trace) 1
         (Some (TopObject (metadata_message (JStr ''a.bin'') (JNum 209715201)))) 8 8 =
       (run paired_trace)\<lparr>outbox := outbox (run paired_trace) @
                                   [(1, Error ''File too large (max 500MB)'')]\<rparr>
   \<and> parseInt (JNum 209715200) = Some 209715200
   \<and> onMessage (run paired_trace) 1
         (Some (TopObject (metadata_message (JStr ''a.bin'') (JNum 209715200)))) 8 8 =
       \<lparr>rooms =
          [(JStr ''1234'',
            paired_room\<lparr>metadata :=
                          Some \<lparr>md_name = ''a.bin'', md_size = Some 209715200,
                                md_type = JStr ''metadata''\<rparr>,
                        lastActivity := 8\<rparr>)],
        outbox = outbox (run paired_trace) @
          [(2, MetadataFwd \<lparr>md_name = ''a.bin'', md_size = Some 209715200,
                            md_type = JStr ''metadata''\<rparr>)]\<rparr>"
  using
    metadata_size_limit [of "metadata_message (JStr ''a.bin'') (JNum 209715201)"
      "run paired_trace" 1 paired_room 8 8]
    metadata_size_limit [of "metadata_message (JStr ''a.bin'') (JNum 209715200)"
      "run paired_trace" 1 paired_room 8 8]
  by (simp add: run_paired metadata_message_def parseInt_demo size_limit_value paired_room_def
      occupies_def plain_number_def)

text \<open>
  As stated, C5 has every size up to the limit accepted and stored, and every declared size
  above it refused. A message with size 100 and no name is not stored: \<^verbatim>\<open>message.name.slice\<close>
  throws and the \<^verbatim>\<open>catch\<close> of the listener answers \<^verbatim>\<open>Invalid message format\<close>. A size
  declared as \<^verbatim>\<open>"209715200.5"\<close> is above the limit, is read by \<^verbatim>\<open>parseInt\<close> as 209715200,
  and is stored.
\<close>

theorem metadata_without_name_counterexample:
  "findRoomByClient (rooms (run registered_trace)) 1 = Some registered_room
   \<and> parseInt (JNum 100) = Some 100 \<and> 100 \<le> size_limit
   \<and> onMessage (run registered_trace) 1
         (Some (TopObject (metadata_message JUndefined (JNum 100)))) 8 8 =
       \<lparr>rooms = [(JStr ''1234'', registered_room)],
        outbox = [(1, Registered (JStr ''1234'')), (1, Error ''Invalid message format'')]\<rparr>
   \<and> metadata registered_room = None
   \<and> parseInt (JStr ''209715200.5'') = Some 209715200
   \<and> onMessage (run registered_trace) 1
         (Some (TopObject (metadata_message (JStr ''a.bin'') (JStr ''209715200.5'')))) 8 8 =
       \<lparr>rooms =
          [(JStr ''1234'',
            registered_room\<lparr>metadata :=
                              Some \<lparr>md_name = ''a.bin'', md_size = Some 209715200,
                                    md_type = JStr ''metadata''\<rparr>,
                            lastActivity := 8\<rparr>)],
        outbox = [(1, Registered (JStr ''1234''))]\<rparr>"
  by (simp add: run_registered onMessage_metadata metadata_message_def handleMetadata_def
      parseInt_demo parseInt_fraction too_large_def size_limit_value send_def registered_room_def
      occupies_def)

subsection \<open>Sizes that are not a number, or negative\<close>

text \<open>
  C9, as amended. A missing size is read by \<^verbatim>\<open>parseInt\<close> as \<^verbatim>\<open>NaN\<close>. For every \<^verbatim>\<open>metadata\<close>
  message from a connection for which the scan resolves a room: when \<^verbatim>\<open>parseInt\<close> reads the
  size as \<^verbatim>\<open>NaN\<close> or as a negative number, no size error is sent and, if the name is a
  string, the metadata is stored with that value as its size and sent to the receiver if
  there is one; the size error is sent exactly when \<^verbatim>\<open>parseInt\<close> reads a number strictly
  above \<open>200 * 1024 * 1024\<close>. A size given as a number is below \<open>10^21\<close> in magnitude.
\<close>

theorem metadata_nan_or_negative_size:
  assumes "msg_type m = JStr ''metadata''" and "findRoomByClient (rooms s) ws = Some room"
    and "plain_number (msg_size m)"
  shows "parseInt JUndefined = None
       \<and> (parseInt (msg_size m) = None \<or> (\<exists>n. parseInt (msg_size m) = Some n \<and> n < 0) \<longrightarrow>
            (ws, Error ''File too large (max 500MB)'')
              \<notin> set (sent s (onMessage s ws (Some (TopObject m)) t1 t2)))
       \<and> (\<forall>nm. (parseInt (msg_size m) = None \<or> (\<exists>n. parseInt (msg_size m) = Some n \<and> n < 0))
              \<and> msg_name m = JStr nm \<longrightarrow>
            onMessage s ws (Some (TopObject m)) t1 t2 =
              s\<lparr>rooms := assignFound (rooms s) ws
                    (\<lambda>r. r\<lparr>metadata :=
                             Some \<lparr>md_name = take 256 nm, md_size = parseInt (msg_size m),
                                   md_type = msg_type m\<rparr>,
                           lastActivity := t1\<rparr>),
                outbox := outbox s @
                  (case receiver room of
                     None \<Rightarrow> []
                   | Some r \<Rightarrow>
                       [(r, MetadataFwd
                              \<lparr>md_name = take 256 nm, md_size = parseInt (msg_size m),
                               md_type = msg_type m\<rparr>)])\<rparr>)
       \<and> ((ws, Error ''File too large (max 500MB)'')
              \<in> set (sent s (onMessage s ws (Some (TopObject m)) t1 t2))
            \<longleftrightarrow> (\<exists>n. parseInt (msg_size m) = Some n \<and> size_limit < n))"
proof -
  have small: "\<not> too_large (parseInt (msg_size m))"
    if "parseInt (msg_size m) = None \<or> (\<exists>n. parseInt (msg_size m) = Some n \<and> n < 0)"
    using that by (auto simp: too_large_def size_limit_def)
  have iff: "(ws, Error ''File too large (max 500MB)'')
        \<in> set (sent s (onMessage s ws (Some (TopObject m)) t1 t2))
      \<longleftrightarrow> (\<exists>n. parseInt (msg_size m) = Some n \<and> size_limit < n)"
    using assms(1,2) by (simp add: onMessage_metadata size_error_metadata too_large_iff)
  have none: "(ws, Error ''File too large (max 500MB)'')
        \<notin> set (sent s (onMessage s ws (Some (TopObject m)) t1 t2))"
    if "parseInt (msg_size m) = None \<or> (\<exists>n. parseInt (msg_size m) = Some n \<and> n < 0)"
    using small [OF that] iff by (simp add: too_large_iff)
  have stored: "onMessage s ws (Some (TopObject m)) t1 t2 =
      s\<lparr>rooms := assignFound (rooms s) ws
            (\<lambda>r. r\<lparr>metadata :=
                     Some \<lparr>md_name = take 256 nm, md_size = parseInt (msg_size m),
                           md_type = msg_type m\<rparr>,
                   lastActivity := t1\<rparr>),
        outbox := outbox s @
          (case receiver room of
             None \<Rightarrow> []
           | Some r \<Rightarrow>
               [(r, MetadataFwd
                      \<lparr>md_name = take 256 nm, md_size = parseInt (msg_size m),
                       md_type = msg_type m\<rparr>)])\<rparr>"
    if "(parseInt (msg_size m) = None \<or> (\<exists>n. parseInt (msg_size m) = Some n \<and> n < 0))
        \<and> msg_name m = JStr nm" for nm
  proof -
    from that have "\<not> too_large (parseInt (msg_size m))" and "msg_name m = JStr nm"
      using small by blast+
    with assms(1,2) show ?thesis by (simp add: onMessage_metadata handleMetadata_accept)
  qed
  from parseInt_undefined none stored iff show ?thesis by blast
qed

theorem metadata_nan_or_negative_size_witness:
  "findRoomByClient (rooms (run paired_trace)) 1 = Some paired_room
   \<and> parseInt (msg_size (metadata_message (JStr ''a.bin'') JUndefined)) = None
   \<and> onMessage (run paired_trace) 1
         (Some (TopObject (metadata_message (JStr ''a.bin'') JUndefined))) 8 8 =
       \<lparr>rooms =
          [(JStr ''1234'',
            paired_room\<lparr>metadata :=
                          Some \<lparr>md_name = ''a.bin'', md_size = None, md_type = JStr ''metadata''\<rparr>,
                        lastActivity := 8\<rparr>)],
        outbox = outbox (run paired_trace) @
          [(2, MetadataFwd \<lparr>md_name = ''a.bin'', md_size = None, md_type = JStr ''metadata''\<rparr>)]\<rparr>
   \<and> parseInt (msg_size (metadata_message (JStr ''a.bin'') (JStr ''-5''))) = Some (- 5)
   \<and> onMessage (run paired_trace) 1
         (Some (TopObject (metadata_message (JStr ''a.bin'') (JStr ''-5'')))) 8 8 =
       \<lparr>rooms =
          [(JStr ''1234'',
            paired_room\<lparr>metadata :=
                          Some \<lparr>md_name = ''a.bin'', md_size = Some (- 5),
                                md_type = JStr ''metadata''\<rparr>,
                        lastActivity := 8\<rparr>)],
        outbox = outbox (run paired_trace) @
          [(2, MetadataFwd \<lparr>md_name = ''a.bin'', md_size = Some (- 5),
                            md_type = JStr ''metadata''\<rparr>)]\<rparr>
   \<and> (1, Error ''File too large (max 500MB)'')
       \<in> set (sent (run paired_trace)
                 (onMessage (run paired_trace) 1
                    (Some (TopObject (metadata_message (JStr ''a.bin'') (JStr ''300000000'')))) 8 8))"
  using
    metadata_nan_or_negative_size [of "metadata_message (JStr ''a.bin'') JUndefined"
      "run paired_trace" 1 paired_room 8 8]
    metadata_nan_or_negative_size [of "metadata_message (JStr ''a.bin'') (JStr ''-5'')"
      "run paired_trace" 1 paired_room 8 8]
    metadata_nan_or_negative_size [of "metadata_message (JStr ''a.bin'') (JStr ''300000000'')"
      "run paired_trace" 1 paired_room 8 8]
  by (simp add: run_paired metadata_message_def parseInt_undefined parseInt_strings
      size_limit_value paired_room_def occupies_def plain_number_def)

text \<open>
  As stated, C9 has the metadata stored for every message whose size is missing. With the
  name missing as well, nothing is stored: the listener answers
  \<^verbatim>\<open>Invalid message format\<close> and the room keeps no metadata.
\<close>

theorem metadata_without_size_and_name_counterexample:
  "findRoomByClient (rooms (run paired_trace)) 1 = Some paired_room
   \<and> parseInt (msg_size (request ''metadata'' JUndefined)) = None
   \<and> onMessage (run paired_trace) 1 (Some (TopObject (request ''metadata'' JUndefined))) 8 8 =
       \<lparr>rooms = [(JStr ''1234'', paired_room)],
        outbox = outbox (run paired_trace) @ [(1, Error ''Invalid message format'')]\<rparr>
   \<and> metadata paired_room = None"
  by (simp add: run_paired onMessage_metadata request_def handleMetadata_def
      parseInt_undefined too_large_def send_def paired_room_def occupies_def)

subsection \<open>The reply \<^verbatim>\<open>Invalid message format\<close>\<close>

text \<open>
  C8, as amended. Handling a frame sends \<^verbatim>\<open>Invalid message format\<close> exactly when the parse
  or the handler throws, and then to the connection of the frame: the text is unparseable,
  or it parses to \<^verbatim>\<open>null\<close>, or it is a \<^verbatim>\<open>metadata\<close> message from a connection for which the
  scan resolves a room, with a size that \<^verbatim>\<open>parseInt\<close> reads as not above the limit (as
  \<^verbatim>\<open>NaN\<close>, or as a number up to the limit) and a name that is not a string. Property values
  are primitive values here, and the size of a \<^verbatim>\<open>metadata\<close> message, when it is a number, is
  below \<open>10^21\<close> in magnitude.
\<close>

theorem invalid_format_iff:
  assumes "\<forall>m. frame = Some (TopObject m) \<and> msg_type m = JStr ''metadata'' \<longrightarrow>
             plain_number (msg_size m)"
  shows "(c, Error ''Invalid message format'') \<in> set (sent s (onMessage s ws frame t1 t2)) \<longleftrightarrow>
     c = ws \<and>
     (frame = None \<or> frame = Some TopNull \<or>
      (\<exists>m room. frame = Some (TopObject m) \<and> msg_type m = JStr ''metadata''
         \<and> findRoomByClient (rooms s) ws = Some room
         \<and> \<not> too_large (parseInt (msg_size m)) \<and> (\<forall>nm. msg_name m \<noteq> JStr nm)))"
proof (cases frame)
  case None
  then show ?thesis by (auto simp: onMessage_def)
next
  case (Some d)
  show ?thesis
  proof (cases d)
    case TopNull
    with Some show ?thesis by (auto simp: onMessage_def handleMessage_def)
  next
    case TopOther
    with Some show ?thesis by (simp add: onMessage_def handleMessage_def)
  next
    case (TopObject m)
    consider (register) "msg_type m = JStr ''register''" | (join) "msg_type m = JStr ''join''"
      | (metadata) "msg_type m = JStr ''metadata''" | (chunk) "msg_type m = JStr ''chunk''"
      | (complete) "msg_type m = JStr ''complete''"
      | (unknown) "msg_type m \<noteq> JStr ''register''" "msg_type m \<noteq> JStr ''join''"
          "msg_type m \<noteq> JStr ''metadata''" "msg_type m \<noteq> JStr ''chunk''"
          "msg_type m \<noteq> JStr ''complete''"
      by blast
    then show ?thesis
    proof cases
      case register
      with Some TopObject show ?thesis
        by (simp add: onMessage_def handleMessage_def no_format_error_createRoom)
    next
      case join
      with Some TopObject show ?thesis
        by (simp add: onMessage_def handleMessage_def no_format_error_joinRoom)
    next
      case metadata
      with Some TopObject show ?thesis
        by (simp add: onMessage_metadata format_error_metadata name_slice_None_iff)
    next
      case chunk
      with Some TopObject show ?thesis
        by (simp add: onMessage_def handleMessage_def no_format_error_forwardChunk)
    next
      case complete
      with Some TopObject show ?thesis
        by (simp add: onMessage_def handleMessage_def no_format_error_complete)
    next
      case unknown
      with Some TopObject show ?thesis
        by (simp add: onMessage_def handleMessage_def)
    qed
  qed
qed

theorem invalid_format_iff_witness:
  "(1, Error ''Invalid message format'') \<in> set (sent init (onMessage init 1 None 5 5))
   \<and> (1, Error ''Invalid message format'')
       \<notin> set (sent init (onMessage init 1 (Some (TopObject (request ''metadata'' JUndefined))) 5 5))
   \<and> (1, Error ''Invalid message format'')
       \<in> set (sent (run registered_trace)
                 (onMessage (run registered_trace) 1
                    (Some (TopObject (request ''metadata'' JUndefined))) 8 8))"
  using
    invalid_format_iff [where frame = None and c = 1 and s = init and ws = 1
      and ?t1.0 = 5 and ?t2.0 = 5]
    invalid_format_iff [where frame = "Some (TopObject (request ''metadata'' JUndefined))"
      and c = 1 and s = init and ws = 1 and ?t1.0 = 5 and ?t2.0 = 5]
    invalid_format_iff [where frame = "Some (TopObject (request ''metadata'' JUndefined))"
      and c = 1 and s = "run registered_trace" and ws = 1 and ?t1.0 = 8 and ?t2.0 = 8]
  by (simp add: init_def request_def run_registered registered_room_def occupies_def
      parseInt_undefined too_large_def plain_number_def)

text \<open>
  As stated, C8 has no parsed object answered with \<^verbatim>\<open>Invalid message format\<close>, whatever
  properties it lacks. The object \<^verbatim>\<open>{"type": "metadata"}\<close> from the sender of a room is
  answered with it.
\<close>

theorem parsed_message_format_error_counterexample:
  "onMessage (run registered_trace) 1 (Some (TopObject (request ''metadata'' JUndefined))) 8 8 =
     \<lparr>rooms = [(JStr ''1234'', registered_room)],
      outbox = [(1, Registered (JStr ''1234'')), (1, Error ''Invalid message format'')]\<rparr>
   \<and> (1, Error ''Invalid message format'')
       \<in> set (sent (run registered_trace)
                 (onMessage (run registered_trace) 1
                    (Some (TopObject (request ''metadata'' JUndefined))) 8 8))"
  by (simp add: run_registered onMessage_metadata request_def handleMetadata_def
      parseInt_undefined too_large_def send_def sent_def registered_room_def occupies_def)

subsection \<open>Messages from the receiver\<close>

text \<open>
  C10, as amended. In every reachable state, when the scan for a connection resolves a room
  of which the connection is the receiver: a \<^verbatim>\<open>chunk\<close> from it is sent back to the
  connection itself (and \<^verbatim>\<open>lastActivity\<close> is set); a \<^verbatim>\<open>metadata\<close> message from it that passes
  the size check and has a string name overwrites the metadata of the room and is sent to
  the connection itself; a \<^verbatim>\<open>complete\<close> from it sends \<^verbatim>\<open>complete\<close> to the connection itself
  and deletes the room. When the scan for the sender resolves the same room, each of the
  three handlers gives the same result for the sender and for the receiver, but for the
  address of the size error. In what is said of \<^verbatim>\<open>metadata\<close>, a size given as a number is
  below \<open>10^21\<close> in magnitude.
\<close>

theorem receiver_messages_like_sender:
  assumes "reachable s" and "findRoomByClient (rooms s) ws = Some room"
    and "receiver room = Some ws"
  shows "forwardChunk s ws m t =
           s\<lparr>rooms := assignFound (rooms s) ws (\<lambda>r. r\<lparr>lastActivity := t\<rparr>),
             outbox := outbox s @ [(ws, Chunk (msg_chunk m))]\<rparr>
       \<and> (\<forall>nm. plain_number (msg_size m) \<and> \<not> too_large (parseInt (msg_size m))
              \<and> msg_name m = JStr nm \<longrightarrow>
            handleMetadata s ws m t =
              Returned
                (s\<lparr>rooms := assignFound (rooms s) ws
                       (\<lambda>r. r\<lparr>metadata :=
                                Some \<lparr>md_name = take 256 nm, md_size = parseInt (msg_size m),
                                      md_type = msg_type m\<rparr>,
                              lastActivity := t\<rparr>),
                   outbox := outbox s @
                     [(ws, MetadataFwd
                             \<lparr>md_name = take 256 nm, md_size = parseInt (msg_size m),
                              md_type = msg_type m\<rparr>)]\<rparr>))
       \<and> handleTransferComplete s ws m =
           s\<lparr>rooms := AList.delete (getRoomCode (rooms s) ws) (rooms s),
             outbox := outbox s @ [(ws, Complete)]\<rparr>
       \<and> map_of (rooms s) (getRoomCode (rooms s) ws) = Some room
       \<and> map_of (rooms (handleTransferComplete s ws m)) (getRoomCode (rooms s) ws) = None
       \<and> (getRoomCode (rooms s) (sender room) = getRoomCode (rooms s) ws \<longrightarrow>
            forwardChunk s (sender room) m t = forwardChunk s ws m t
          \<and> handleTransferComplete s (sender room) m = handleTransferComplete s ws m
          \<and> (plain_number (msg_size m) \<longrightarrow>
               (if too_large (parseInt (msg_size m))
                then handleMetadata s (sender room) m t =
                       Returned (send s (sender room) (Error ''File too large (max 500MB)''))
                   \<and> handleMetadata s ws m t =
                       Returned (send s ws (Error ''File too large (max 500MB)''))
                else handleMetadata s (sender room) m t = handleMetadata s ws m t)))"
proof -
  have dist: "distinct (map fst (rooms s))"
    using assms(1) reachable_keys_ok by (auto simp: keys_ok_def)
  have chunk: "forwardChunk s ws m t =
      s\<lparr>rooms := assignFound (rooms s) ws (\<lambda>r. r\<lparr>lastActivity := t\<rparr>),
        outbox := outbox s @ [(ws, Chunk (msg_chunk m))]\<rparr>"
    using assms(2,3) by (simp add: forwardChunk_def send_def)
  have meta: "handleMetadata s ws m t =
      Returned
        (s\<lparr>rooms := assignFound (rooms s) ws
               (\<lambda>r. r\<lparr>metadata :=
                        Some \<lparr>md_name = take 256 nm, md_size = parseInt (msg_size m),
                              md_type = msg_type m\<rparr>,
                      lastActivity := t\<rparr>),
           outbox := outbox s @
             [(ws, MetadataFwd
                     \<lparr>md_name = take 256 nm, md_size = parseInt (msg_size m),
                      md_type = msg_type m\<rparr>)]\<rparr>)"
    if "\<not> too_large (parseInt (msg_size m)) \<and> msg_name m = JStr nm" for nm
    using that assms(2,3) by (simp add: handleMetadata_accept)
  have complete: "handleTransferComplete s ws m =
      s\<lparr>rooms := AList.delete (getRoomCode (rooms s) ws) (rooms s),
        outbox := outbox s @ [(ws, Complete)]\<rparr>"
    using assms(2,3) by (simp add: handleTransferComplete_def send_def Let_def)
  have at: "map_of (rooms s) (getRoomCode (rooms s) ws) = Some room"
    using dist assms(2) by (rule find_Some_map_of)
  have gone: "map_of (rooms (handleTransferComplete s ws m)) (getRoomCode (rooms s) ws) = None"
    by (simp add: complete delete_conv')
  have same: "forwardChunk s (sender room) m t = forwardChunk s ws m t
      \<and> handleTransferComplete s (sender room) m = handleTransferComplete s ws m
      \<and> (if too_large (parseInt (msg_size m))
          then handleMetadata s (sender room) m t =
                 Returned (send s (sender room) (Error ''File too large (max 500MB)''))
             \<and> handleMetadata s ws m t =
                 Returned (send s ws (Error ''File too large (max 500MB)''))
          else handleMetadata s (sender room) m t = handleMetadata s ws m t)"
    if code: "getRoomCode (rooms s) (sender room) = getRoomCode (rooms s) ws"
  proof -
    have "(getRoomCode (rooms s) ws, room) \<in> set (rooms s)"
      using assms(2) by (rule find_Some_mem)
    moreover have "occupies room (sender room)" by (simp add: occupies_def)
    ultimately obtain r' where r': "findRoomByClient (rooms s) (sender room) = Some r'"
      using find_of_member by blast
    from same_code_same_room [OF dist r' assms(2) code]
    have eq: "r' = room"
      and upd: "assignFound (rooms s) (sender room) f = assignFound (rooms s) ws f" for f
      by simp_all
    show ?thesis
      using r' assms(2) eq upd code
      by (simp add: forwardChunk_def handleTransferComplete_def handleMetadata_def Let_def
          split: option.splits)
  qed
  from chunk meta complete at gone same show ?thesis by blast
qed

theorem receiver_messages_like_sender_witness:
  "reachable (run paired_trace)
   \<and> findRoomByClient (rooms (run paired_trace)) 2 = Some paired_room
   \<and> forwardChunk (run paired_trace) 2 (request ''chunk'' JUndefined) 9 =
       \<lparr>rooms = [(JStr ''1234'', paired_room\<lparr>lastActivity := 9\<rparr>)],
        outbox = outbox (run paired_trace) @ [(2, Chunk JUndefined)]\<rparr>
   \<and> forwardChunk (run paired_trace) 1 (request ''chunk'' JUndefined) 9 =
       forwardChunk (run paired_trace) 2 (request ''chunk'' JUndefined) 9
   \<and> plain_number (JNum 100)
   \<and> handleMetadata (run paired_trace) 2 (metadata_message (JStr ''a.bin'') (JNum 100)) 9 =
       Returned
         \<lparr>rooms =
            [(JStr ''1234'',
              paired_room\<lparr>metadata :=
                            Some \<lparr>md_name = ''a.bin'', md_size = Some 100,
                                  md_type = JStr ''metadata''\<rparr>,
                          lastActivity := 9\<rparr>)],
          outbox = outbox (run paired_trace) @
            [(2, MetadataFwd \<lparr>md_name = ''a.bin'', md_size = Some 100,
                              md_type = JStr ''metadata''\<rparr>)]\<rparr>
   \<and> handleTransferComplete (run paired_trace) 2 (request ''complete'' JUndefined) =
       \<lparr>rooms = [], outbox = outbox (run paired_trace) @ [(2, Complete)]\<rparr>"
proof -
  have r: "reachable (run paired_trace)" by (rule reachable_run)
  show ?thesis
    using r
      receiver_messages_like_sender [OF r, of 2 paired_room "request ''chunk'' JUndefined" 9]
      receiver_messages_like_sender [OF r, of 2 paired_room
        "metadata_message (JStr ''a.bin'') (JNum 100)" 9]
      receiver_messages_like_sender [OF r, of 2 paired_room "request ''complete'' JUndefined" 9]
    by (simp add: run_paired paired_room_def occupies_def request_def metadata_message_def
        parseInt_demo parseInt_undefined too_large_def size_limit_value plain_number_def)
qed

text \<open>
  As stated, C10 holds of every receiver of a paired room and of every \<^verbatim>\<open>metadata\<close> message.
  Connection 2 registers \<^verbatim>\<open>"2222"\<close> and then joins \<^verbatim>\<open>"1111"\<close>: the scan resolves its own
  room, which has no receiver, so its \<^verbatim>\<open>chunk\<close> and \<^verbatim>\<open>complete\<close> are dropped. A \<^verbatim>\<open>metadata\<close>
  message of the receiver with a size above the limit overwrites nothing.
\<close>

theorem receiver_elsewhere_counterexample:
  "reachable (run late_join_trace)
   \<and> map_of (rooms (run late_join_trace)) (JStr ''1111'') =
       Some \<lparr>sender = 1, receiver = Some 2, metadata = None, createdAt = 6, lastActivity = 7\<rparr>
   \<and> forwardChunk (run late_join_trace) 2 (request ''chunk'' JUndefined) 9 = run late_join_trace
   \<and> handleTransferComplete (run late_join_trace) 2 (request ''complete'' JUndefined) =
       run late_join_trace
   \<and> findRoomByClient (rooms (run paired_trace)) 2 = Some paired_room
   \<and> handleMetadata (run paired_trace) 2 (metadata_message (JStr ''a.bin'') (JStr ''300000000'')) 9 =
       Returned
         \<lparr>rooms = [(JStr ''1234'', paired_room)],
          outbox = outbox (run paired_trace) @ [(2, Error ''File too large (max 500MB)'')]\<rparr>"
  by (simp add: reachable_run)
    (simp add: run_late_join run_paired forwardChunk_def handleTransferComplete_def
      handleMetadata_def occupies_def paired_room_def metadata_message_def parseInt_strings
      too_large_def size_limit_value send_def)

end
